theory Spec2Isabelle
  imports Complex_Main "HOL-Library.Sublist"
begin

section \<open>JavaScript values used by the tester\<close>

text \<open>
  A JavaScript \<open>number\<close> is a binary64 value: \<open>NaN\<close>, an infinity, or a finite
  value, held as the rational it denotes. The results of conversions and of arithmetic
  are rounded to binary64 (\<open>binary64\<close> below), to the nearest value and to the even
  significand on a tie, with gradual underflow and with overflow to an infinity. The
  sign of zero is not modelled. Strings are lists of bytes (ASCII text); a search for an
  ASCII needle gives the same answer on bytes as on UTF-16 code units.
\<close>

datatype number = NaN | Num rat | PosInfinity | NegInfinity

text \<open>The exceptions the script can raise: \<open>new Error(message)\<close>, and the
  \<open>SyntaxError\<close> and \<open>TypeError\<close> of the \<open>BigInt\<close> conversion (their
  message text is the engine's own and is not modelled).\<close>

datatype exn = Error string | SyntaxError | TypeError

text \<open>Comparison and strict inequality of numbers: every comparison with \<open>NaN\<close>
  is false, and \<open>NaN !== x\<close> is true.\<close>

fun js_gt :: "number \<Rightarrow> number \<Rightarrow> bool" where
  "js_gt NaN y = False"
| "js_gt x NaN = False"
| "js_gt (Num a) (Num b) = (b < a)"
| "js_gt PosInfinity y = (y \<noteq> PosInfinity)"
| "js_gt x NegInfinity = (x \<noteq> NegInfinity)"
| "js_gt x y = False"

definition js_neq :: "number \<Rightarrow> number \<Rightarrow> bool" where
  "js_neq x y = (x = NaN \<or> y = NaN \<or> x \<noteq> y)"

text \<open>Truthiness of a number: \<open>0\<close> and \<open>NaN\<close> are falsy.\<close>

fun truthy :: "number \<Rightarrow> bool" where
  "truthy NaN = False"
| "truthy (Num a) = (a \<noteq> 0)"
| "truthy PosInfinity = True"
| "truthy NegInfinity = True"

subsection \<open>Rounding to binary64\<close>

text \<open>The number of binary digits of a positive integer.\<close>

function bitlen :: "int \<Rightarrow> int" where
  "bitlen n = (if n \<le> 0 then 0 else 1 + bitlen (n div 2))"
  by pat_completeness auto
termination
  by (relation "measure nat") auto

declare bitlen.simps [simp del]

text \<open>\<open>2^e\<close> for an integer \<open>e\<close>, by repeated squaring.\<close>

function pow2 :: "int \<Rightarrow> rat" where
  "pow2 e =
     (if e < 0 then 1 / pow2 (- e)
      else if e = 0 then 1
      else let h = pow2 (e div 2) in if even e then h * h else 2 * h * h)"
  by pat_completeness auto
termination
  by (relation "measure (\<lambda>e. nat (2 * \<bar>e\<bar>) + (if e < 0 then 1 else 0))") auto

declare pow2.simps [simp del]

definition roundHalfEven :: "rat \<Rightarrow> int" where
  "roundHalfEven y =
     (let m = \<lfloor>y\<rfloor>; d = y - of_int m
      in if d < 1 / 2 then m
         else if 1 / 2 < d then m + 1
         else if even m then m else m + 1)"

text \<open>The binary64 value nearest to a rational. With \<open>2^e \<le> |x| < 2^(e+1)\<close> the
  spacing of the values around \<open>x\<close> is \<open>2^(e-52)\<close>, and \<open>2^-1074\<close> at least; a
  result of \<open>2^1024\<close> or more is an infinity.\<close>

definition binary64 :: "rat \<Rightarrow> number" where
  "binary64 x =
     (if x = 0 then Num 0
      else
        let a = \<bar>x\<bar>;
            e0 = bitlen (fst (quotient_of a)) - bitlen (snd (quotient_of a));
            e = (if pow2 e0 \<le> a then e0 else e0 - 1);
            u = max (e - 52) (- 1074);
            m = roundHalfEven (a / pow2 u)
        in if 1025 \<le> bitlen m + u then (if x < 0 then NegInfinity else PosInfinity)
           else Num ((if x < 0 then - 1 else 1) * of_int m * pow2 u))"

text \<open>\<open>x + y\<close> and \<open>x / y\<close> on numbers.\<close>

fun js_add :: "number \<Rightarrow> number \<Rightarrow> number" where
  "js_add NaN y = NaN"
| "js_add x NaN = NaN"
| "js_add (Num a) (Num b) = binary64 (a + b)"
| "js_add PosInfinity NegInfinity = NaN"
| "js_add NegInfinity PosInfinity = NaN"
| "js_add PosInfinity y = PosInfinity"
| "js_add NegInfinity y = NegInfinity"
| "js_add x PosInfinity = PosInfinity"
| "js_add x NegInfinity = NegInfinity"

fun js_div :: "number \<Rightarrow> number \<Rightarrow> number" where
  "js_div NaN y = NaN"
| "js_div x NaN = NaN"
| "js_div (Num a) (Num b) =
     (if b = 0 then (if a = 0 then NaN else if 0 < a then PosInfinity else NegInfinity)
      else binary64 (a / b))"
| "js_div (Num a) y = Num 0"
| "js_div PosInfinity (Num b) = (if b < 0 then NegInfinity else PosInfinity)"
| "js_div NegInfinity (Num b) = (if b < 0 then PosInfinity else NegInfinity)"
| "js_div x y = NaN"

text \<open>\<open>Number(b)\<close> of a \<open>BigInt\<close>.\<close>

definition Number_of_BigInt :: "int \<Rightarrow> number" where
  "Number_of_BigInt b = binary64 (of_int b)"

subsection \<open>Digits and white space\<close>

definition digitVal :: "char \<Rightarrow> int option" where
  "digitVal c =
     (let k = (of_char c :: int) in
      if 48 \<le> k \<and> k \<le> 57 then Some (k - 48)
      else if 97 \<le> k \<and> k \<le> 122 then Some (k - 87)
      else if 65 \<le> k \<and> k \<le> 90 then Some (k - 55)
      else None)"

definition radixDigit :: "int \<Rightarrow> char \<Rightarrow> int option" where
  "radixDigit R c =
     (case digitVal c of
        None \<Rightarrow> None
      | Some d \<Rightarrow> if d < R then Some d else None)"

definition isDigit :: "int \<Rightarrow> char \<Rightarrow> bool" where
  "isDigit R c = (radixDigit R c \<noteq> None)"

definition digitsValue :: "int \<Rightarrow> string \<Rightarrow> int" where
  "digitsValue R ds =
     foldl (\<lambda>a c. case radixDigit R c of Some d \<Rightarrow> a * R + d | None \<Rightarrow> a) 0 ds"

text \<open>The ASCII members of the language's white space and line terminators
  (TAB, LF, VT, FF, CR, SP).\<close>

definition isWhiteSpace :: "char \<Rightarrow> bool" where
  "isWhiteSpace c =
     (let k = (of_char c :: int) in k = 9 \<or> k = 10 \<or> k = 11 \<or> k = 12 \<or> k = 13 \<or> k = 32)"

definition trimStart :: "string \<Rightarrow> string" where
  "trimStart s = dropWhile isWhiteSpace s"

definition trim :: "string \<Rightarrow> string" where
  "trim s = rev (dropWhile isWhiteSpace (rev (dropWhile isWhiteSpace s)))"

definition hasPrefix0 :: "char \<Rightarrow> char \<Rightarrow> string \<Rightarrow> bool" where
  "hasPrefix0 lo up s =
     (case s of
        a # b # _ \<Rightarrow> a = CHR ''0'' \<and> (b = lo \<or> b = up)
      | _ \<Rightarrow> False)"

subsection \<open>parseInt\<close>

text \<open>\<open>parseInt(string, radix)\<close>; radix \<open>0\<close> stands for an absent radix. Leading
  white space is skipped, a sign is read, a \<open>0x\<close> prefix is dropped when the radix is
  16 or absent, and the longest run of digits of the radix is the value; no digit gives
  \<open>NaN\<close>. The value is rounded to binary64.\<close>

definition parseInt :: "string \<Rightarrow> int \<Rightarrow> number" where
  "parseInt inputString radix =
     (let S0 = trimStart inputString;
          sign = (if S0 \<noteq> [] \<and> hd S0 = CHR ''-'' then (-1::int) else 1);
          S1 = (if S0 \<noteq> [] \<and> (hd S0 = CHR ''+'' \<or> hd S0 = CHR ''-'') then tl S0 else S0)
      in if radix \<noteq> 0 \<and> (radix < 2 \<or> 36 < radix) then NaN
         else
           let stripPrefix = (radix = 0 \<or> radix = 16);
               R0 = (if radix = 0 then 10 else radix);
               hex = (stripPrefix \<and> hasPrefix0 CHR ''x'' CHR ''X'' S1);
               S2 = (if hex then drop 2 S1 else S1);
               R = (if hex then 16 else R0);
               Z = takeWhile (isDigit R) S2
           in if Z = [] then NaN
              else binary64 (of_int (sign * digitsValue R Z)))"

subsection \<open>BigInt\<close>

text \<open>\<open>BigInt(string)\<close>: the trimmed text is empty (zero), a \<open>0x\<close>, \<open>0o\<close> or
  \<open>0b\<close> literal without a sign, or a decimal literal with an optional sign; anything
  else raises \<open>SyntaxError\<close> (here \<open>None\<close>).\<close>

definition radixLiteral :: "int \<Rightarrow> string \<Rightarrow> int option" where
  "radixLiteral R ds =
     (if ds \<noteq> [] \<and> list_all (isDigit R) ds then Some (digitsValue R ds) else None)"

definition StringToBigInt :: "string \<Rightarrow> int option" where
  "StringToBigInt str =
     (let s = trim str in
      if s = [] then Some 0
      else if hasPrefix0 CHR ''x'' CHR ''X'' s then radixLiteral 16 (drop 2 s)
      else if hasPrefix0 CHR ''o'' CHR ''O'' s then radixLiteral 8 (drop 2 s)
      else if hasPrefix0 CHR ''b'' CHR ''B'' s then radixLiteral 2 (drop 2 s)
      else if hd s = CHR ''-'' then map_option uminus (radixLiteral 10 (tl s))
      else if hd s = CHR ''+'' then radixLiteral 10 (tl s)
      else radixLiteral 10 s)"

text \<open>\<open>BigInt(v)\<close> for a value that is a string or \<open>undefined\<close>: \<open>undefined\<close>
  raises \<open>TypeError\<close>.\<close>

definition BigInt :: "string option \<Rightarrow> exn + int" where
  "BigInt v =
     (case v of
        None \<Rightarrow> Inl TypeError
      | Some s \<Rightarrow> (case StringToBigInt s of None \<Rightarrow> Inl SyntaxError | Some b \<Rightarrow> Inr b))"

subsection \<open>Number.prototype.toString(16) and toFixed\<close>

definition hexChar :: "int \<Rightarrow> char" where
  "hexChar d = char_of (if d < 10 then 48 + d else 87 + d)"

function toHex :: "int \<Rightarrow> string" where
  "toHex n = (if n < 16 then [hexChar n] else toHex (n div 16) @ [hexChar (n mod 16)])"
  by pat_completeness auto
termination
  by (relation "measure nat") auto

declare toHex.simps [simp del]

text \<open>\<open>x.toString(16)\<close>. An integer prints as its hexadecimal digits after an optional
  minus sign. A fraction prints its integer part, a point and further digits; the
  standard leaves those digits to the engine, and the model prints the first one only
  (the point alone already makes the text no integer literal).\<close>

definition toString16 :: "number \<Rightarrow> string" where
  "toString16 x =
     (case x of
        NaN \<Rightarrow> ''NaN''
      | PosInfinity \<Rightarrow> ''Infinity''
      | NegInfinity \<Rightarrow> ''-Infinity''
      | Num r \<Rightarrow>
          (let a = \<bar>r\<bar>; i = \<lfloor>a\<rfloor>; sgn = (if r < 0 then ''-'' else '''')
           in if a = of_int i then sgn @ toHex i
              else sgn @ toHex i @ ''.'' @ [hexChar \<lfloor>(a - of_int i) * 16\<rfloor>]))"

text \<open>\<open>x.toFixed(f)\<close>. For a finite \<open>x\<close> below \<open>10^21\<close> in magnitude the text is
  a minus sign when \<open>x < 0\<close>, then the integer \<open>n\<close> for which \<open>n / 10^f\<close> is
  nearest to \<open>|x|\<close> (the larger one on a tie) with a point before its last \<open>f\<close>
  digits: \<open>Fixed False 100\<close> is the text \<open>1.00\<close> when \<open>f = 2\<close>. Any other \<open>x\<close>
  prints as \<open>String(x)\<close>, which the model keeps as the number.\<close>

datatype fixed = Fixed bool int | ToString number

definition toFixed :: "nat \<Rightarrow> number \<Rightarrow> fixed" where
  "toFixed f x =
     (case x of
        Num r \<Rightarrow>
          if 1000000000000000000000 \<le> \<bar>r\<bar> then ToString x
          else Fixed (r < 0) \<lfloor>\<bar>r\<bar> * 10 ^ f + 1 / 2\<rfloor>
      | _ \<Rightarrow> ToString x)"

text \<open>\<open>haystack.includes(needle)\<close>: the needle occurs as a contiguous run.\<close>

definition str_includes :: "string \<Rightarrow> string \<Rightarrow> bool" where
  "str_includes haystack needle = sublist needle haystack"

section \<open>Data model\<close>

text \<open>The interfaces of the script. \<open>params: any[]\<close> holds strings, numbers and
  arrays of them. The optional \<open>data\<close> of an error and the response headers are never
  read and are left out.\<close>

datatype param = PStr string | PNum int | PList "param list"

record JsonRpcRequest =
  method' :: string
  params :: "param list"
  id' :: nat

record RpcError =
  code :: int
  message :: string

record 'a RpcResponse =
  result :: "'a option"
  error :: "RpcError option"
  responseTime :: int
  httpVersion :: string
  statusCode :: "nat option"

record BlockNumberResult =
  blockNumber :: number
  responseTime' :: int
  httpVersion' :: string

text \<open>An element of \<open>baseFeePerGas\<close> or \<open>reward\<close> has type \<open>string | number\<close>.\<close>

datatype str_or_num = Str string | Number number

record FeeHistoryResult =
  baseFeePerGas :: "str_or_num list option"
  gasUsedRatio :: "number list"
  oldestBlock :: string
  reward :: "str_or_num list list option"

record TestResult =
  passed :: nat
  failed :: nat
  tests :: "string \<rightharpoonup> bool"

datatype format = hex | number

text \<open>What the script prints, one constructor per \<open>console.log\<close> of the source, with
  the values it interpolates. Colours are left out.\<close>

datatype line =
    Testing string
  | Failed exn
  | ChainId number "string option"
  | ResponseTime int
  | ChainIdWarning number number
  | LatestBlock number
  | HttpVersion string
  | ResponseTimes nat
  | Average fixed
  | Min int
  | Max int
  | NetworkActive
  | Address string
  | Balance fixed int
  | HexFormatFailed
  | Eip1559NotSupported
  | Eip1559Supported
  | ParameterFormat format
  | RewardField bool
  | LatestBaseFee fixed
  | AverageBaseFee fixed
  | PriorityFeePercentiles
  | Percentile nat fixed
  | LegacyGasPricing
  | CurrentGasPrice fixed
  | Rule
  | Title string
  | RpcUrl string
  | Protocol bool
  | Crashed string exn
  | PassedFailed nat nat
  | SummaryChainId number
  | SummaryBlock number
  | GasModel bool
  | AllPassed
  | SomeFailed
  | AllFailed
  | Usage
  | InvalidURL string
  | FatalError exn

text \<open>The \<open>RPCTester\<close> object, together with the two effects of the script that the
  properties observe: the lines printed so far (\<open>console\<close>) and the requests written
  to the endpoint so far (\<open>wire\<close>), oldest first. \<open>this.results\<close> is the three
  \<open>results_\<close> fields.\<close>

record RPCTester =
  rpcUrl :: string
  expectedChainId :: "number option"
  isHttps :: bool
  requestId :: nat
  results_chainId :: "number option"
  results_blockNumber :: "number option"
  results_eip1559 :: "bool option"
  console :: "line list"
  wire :: "JsonRpcRequest list"

text \<open>The promise of \<open>makeRequest\<close> either rejects with \<open>new Error(message)\<close> (the
  request failed, timed out, or the body was no JSON) or resolves with a response.\<close>

datatype 'a reply = Rejected string | Resolved "'a RpcResponse"

record URL =
  protocol :: string
  hostname :: string
  port :: string
  pathname :: string

text \<open>What the script finds around it: the address read from the process environment
  (\<open>TEST_ADDRESS\<close>, the empty string when the variable is unset), the \<open>URL\<close>
  constructor (\<open>None\<close> when it throws), and the endpoint. The endpoint answers a
  request with a reply; since every request carries a fresh \<open>id\<close>, a function of the
  request can answer two requests of the same method differently. Replies have the types
  the script declares for them: a string for \<open>eth_chainId\<close>, \<open>eth_blockNumber\<close>,
  \<open>eth_getBalance\<close> and \<open>eth_gasPrice\<close>, a \<open>FeeHistoryResult\<close> for
  \<open>eth_feeHistory\<close>.\<close>

record environment =
  TEST_ADDRESS :: string
  newURL :: "string \<Rightarrow> URL option"
  rpc_string :: "JsonRpcRequest \<Rightarrow> string reply"
  rpc_feeHistory :: "JsonRpcRequest \<Rightarrow> FeeHistoryResult reply"

section \<open>Transport\<close>

definition log :: "line \<Rightarrow> RPCTester \<Rightarrow> RPCTester" where
  "log l t = t\<lparr>console := console t @ [l]\<rparr>"

definition makeRequest ::
  "(JsonRpcRequest \<Rightarrow> 'a reply) \<Rightarrow> string \<Rightarrow> param list \<Rightarrow> RPCTester \<Rightarrow> 'a reply \<times> RPCTester" where
  "makeRequest endpoint m ps t =
     (let requestData = \<lparr>method' = m, params = ps, id' = requestId t + 1\<rparr>
      in (endpoint requestData,
          t\<lparr>requestId := requestId t + 1, wire := wire t @ [requestData]\<rparr>))"

text \<open>The \<open>try { ... } catch (error) { console.log(Failed); return false }\<close> around
  the body of every probe.\<close>

definition catch_failed :: "(exn + bool) \<times> RPCTester \<Rightarrow> bool \<times> RPCTester" where
  "catch_failed r =
     (case r of
        (Inr b, t) \<Rightarrow> (b, t)
      | (Inl e, t) \<Rightarrow> (False, log (Failed e) t))"

section \<open>Chain-identity probe\<close>

definition chainNames :: "(int \<times> string) list" where
  "chainNames =
     [(1, ''Ethereum Mainnet''), (5, ''Goerli Testnet''), (11155111, ''Sepolia Testnet''),
      (137, ''Polygon Mainnet''), (80001, ''Polygon Mumbai''), (56, ''BSC Mainnet''),
      (97, ''BSC Testnet''), (43114, ''Avalanche C-Chain''), (43113, ''Avalanche Fuji''),
      (42161, ''Arbitrum One''), (421613, ''Arbitrum Goerli''), (10, ''Optimism''),
      (420, ''Optimism Goerli''), (8453, ''Base Mainnet''), (84531, ''Base Goerli''),
      (1329, ''SEI Mainnet''), (16661, ''0G-Aristotle''), (9600, ''RouterChain''),
      (23294, ''Oasis Sapphire''), (239, ''TAC Mainnet''), (42793, ''Etherlink'')]"

text \<open>\<open>chainNames[chainId]\<close>: \<open>None\<close> prints as \<open>(Unknown chain)\<close>.\<close>

definition chainName :: "number \<Rightarrow> string option" where
  "chainName chainId =
     (case chainId of
        Num r \<Rightarrow> if r = of_int \<lfloor>r\<rfloor> then map_of chainNames \<lfloor>r\<rfloor> else None
      | _ \<Rightarrow> None)"

definition testChainId_body :: "environment \<Rightarrow> RPCTester \<Rightarrow> (exn + bool) \<times> RPCTester" where
  "testChainId_body env t0 =
     (case makeRequest (rpc_string env) ''eth_chainId'' [] t0 of
        (Rejected msg, t1) \<Rightarrow> (Inl (Error msg), t1)
      | (Resolved response, t1) \<Rightarrow>
          (case error response of
             Some e \<Rightarrow> (Inl (Error (message e)), t1)
           | None \<Rightarrow>
               (case result response of
                  None \<Rightarrow> (Inl (Error ''No result returned''), t1)
                | Some r \<Rightarrow>
                    if r = [] then (Inl (Error ''No result returned''), t1)
                    else
                      let chainId = parseInt r 16;
                          t2 = t1\<lparr>results_chainId := Some chainId\<rparr>;
                          t3 = log (ChainId chainId (chainName chainId)) t2;
                          t4 = log (ResponseTime (responseTime response)) t3;
                          t5 = (case expectedChainId t4 of
                                  None \<Rightarrow> t4
                                | Some expected \<Rightarrow>
                                    if truthy expected \<and> js_neq chainId expected
                                    then log (ChainIdWarning expected chainId) t4
                                    else t4)
                      in (Inr True, t5))))"

definition testChainId :: "environment \<Rightarrow> RPCTester \<Rightarrow> bool \<times> RPCTester" where
  "testChainId env t = catch_failed (testChainId_body env (log (Testing ''eth_chainId'') t))"

section \<open>Legacy gas-price probe\<close>

definition testGasPrice_body :: "environment \<Rightarrow> RPCTester \<Rightarrow> (exn + bool) \<times> RPCTester" where
  "testGasPrice_body env t0 =
     (case makeRequest (rpc_string env) ''eth_gasPrice'' [] t0 of
        (Rejected msg, t1) \<Rightarrow> (Inl (Error msg), t1)
      | (Resolved response, t1) \<Rightarrow>
          (case error response of
             Some e \<Rightarrow> (Inl (Error (message e)), t1)
           | None \<Rightarrow>
               (case result response of
                  None \<Rightarrow> (Inl (Error ''No result returned''), t1)
                | Some r \<Rightarrow>
                    if r = [] then (Inl (Error ''No result returned''), t1)
                    else
                      (case BigInt (Some r) of
                         Inl e \<Rightarrow> (Inl e, t1)
                       | Inr gasPriceWei \<Rightarrow>
                           let gasPriceGwei =
                                 js_div (Number_of_BigInt gasPriceWei) (Num 1000000000);
                               t2 = log (CurrentGasPrice (toFixed 2 gasPriceGwei)) t1;
                               t3 = log (ResponseTime (responseTime response)) t2
                           in (Inr True, t3)))))"

definition testGasPrice :: "environment \<Rightarrow> RPCTester \<Rightarrow> bool \<times> RPCTester" where
  "testGasPrice env t =
     catch_failed (testGasPrice_body env (log (Testing ''eth_gasPrice (Legacy gas)'') t))"

section \<open>Balance probe\<close>

definition zeroAddress :: string where
  "zeroAddress = ''0x0000000000000000000000000000000000000000''"

definition testAddresses :: "environment \<Rightarrow> string list" where
  "testAddresses env = [zeroAddress, TEST_ADDRESS env]"

text \<open>The \<open>for (const address of testAddresses)\<close> loop; a \<open>throw\<close> leaves it.\<close>

fun getBalance_loop :: "environment \<Rightarrow> string list \<Rightarrow> RPCTester \<Rightarrow> (exn + bool) \<times> RPCTester" where
  "getBalance_loop env [] t = (Inr True, t)"
| "getBalance_loop env (address # rest) t =
     (case makeRequest (rpc_string env) ''eth_getBalance'' [PStr address, PStr ''latest''] t of
        (Rejected msg, t1) \<Rightarrow> (Inl (Error msg), t1)
      | (Resolved response, t1) \<Rightarrow>
          (case error response of
             Some e \<Rightarrow> (Inl (Error (message e)), t1)
           | None \<Rightarrow>
               (case result response of
                  None \<Rightarrow> (Inl (Error ''No result returned''), t1)
                | Some r \<Rightarrow>
                    if r = [] then (Inl (Error ''No result returned''), t1)
                    else
                      (case BigInt (Some r) of
                         Inl e \<Rightarrow> (Inl e, t1)
                       | Inr balanceWei \<Rightarrow>
                           let balanceEth =
                                 js_div (Number_of_BigInt balanceWei) (Num 1000000000000000000);
                               t2 = log (Address (take 10 address)) t1;
                               t3 = log (Balance (toFixed 6 balanceEth) balanceWei) t2;
                               t4 = log (ResponseTime (responseTime response)) t3
                           in getBalance_loop env rest t4))))"

definition testGetBalance :: "environment \<Rightarrow> RPCTester \<Rightarrow> bool \<times> RPCTester" where
  "testGetBalance env t =
     catch_failed (getBalance_loop env (testAddresses env) (log (Testing ''eth_getBalance'') t))"

section \<open>Block-activity probe\<close>

definition numCalls :: nat where
  "numCalls = 5"

text \<open>The \<open>for (let i = 0; i < numCalls; i++)\<close> loop, by the number of calls still
  to make; it carries \<open>results\<close> and \<open>http2Detected\<close>.\<close>

fun blockNumber_loop ::
  "environment \<Rightarrow> nat \<Rightarrow> BlockNumberResult list \<Rightarrow> bool \<Rightarrow> RPCTester
     \<Rightarrow> (exn + BlockNumberResult list \<times> bool) \<times> RPCTester" where
  "blockNumber_loop env 0 results http2Detected t = (Inr (results, http2Detected), t)"
| "blockNumber_loop env (Suc n) results http2Detected t =
     (case makeRequest (rpc_string env) ''eth_blockNumber'' [] t of
        (Rejected msg, t1) \<Rightarrow> (Inl (Error msg), t1)
      | (Resolved response, t1) \<Rightarrow>
          (case error response of
             Some e \<Rightarrow> (Inl (Error (message e)), t1)
           | None \<Rightarrow>
               (case result response of
                  None \<Rightarrow> (Inl (Error ''No result returned''), t1)
                | Some r \<Rightarrow>
                    if r = [] then (Inl (Error ''No result returned''), t1)
                    else
                      blockNumber_loop env n
                        (results @
                           [\<lparr>blockNumber = parseInt r 16,
                             responseTime' = responseTime response,
                             httpVersion' = httpVersion response\<rparr>])
                        (http2Detected \<or> httpVersion response = ''2.0'') t1)))"

text \<open>\<open>Math.min(...xs)\<close> and \<open>Math.max(...xs)\<close> of a list that is not empty.\<close>

definition Math_min :: "int list \<Rightarrow> int" where
  "Math_min xs = foldl min (hd xs) (tl xs)"

definition Math_max :: "int list \<Rightarrow> int" where
  "Math_max xs = foldl max (hd xs) (tl xs)"

text \<open>\<open>blockNumbers.some((block, i) => i > 0 && block > blockNumbers[i - 1])\<close>.\<close>

definition isIncrementing :: "number list \<Rightarrow> bool" where
  "isIncrementing blockNumbers =
     list_ex (\<lambda>i. 0 < i \<and> js_gt (blockNumbers ! i) (blockNumbers ! (i - 1)))
       [0 ..< length blockNumbers]"

definition testBlockNumber_body :: "environment \<Rightarrow> RPCTester \<Rightarrow> (exn + bool) \<times> RPCTester" where
  "testBlockNumber_body env t0 =
     (case blockNumber_loop env numCalls [] False t0 of
        (Inl e, t1) \<Rightarrow> (Inl e, t1)
      | (Inr (results, http2Detected), t1) \<Rightarrow>
          if results = [] then (Inl (Error ''No successful block number responses''), t1)
          else
            let t2 = t1\<lparr>results_blockNumber := Some (blockNumber (last results))\<rparr>;
                responseTimes = map responseTime' results;
                avgResponseTime =
                  js_div (foldl (\<lambda>a b. js_add a (Num (of_int b))) (Num 0) responseTimes)
                    (Num (of_nat (length responseTimes)));
                minResponseTime = Math_min responseTimes;
                maxResponseTime = Math_max responseTimes;
                t3 = log (LatestBlock (blockNumber (last results))) t2;
                t4 = log (HttpVersion
                            (if http2Detected then ''HTTP/2'' else httpVersion' (hd results))) t3;
                t5 = log (ResponseTimes numCalls) t4;
                t6 = log (Average (toFixed 2 avgResponseTime)) t5;
                t7 = log (Min minResponseTime) t6;
                t8 = log (Max maxResponseTime) t7;
                blockNumbers = map blockNumber results;
                t9 = (if isIncrementing blockNumbers then log NetworkActive t8 else t8)
            in (Inr True, t9))"

definition testBlockNumber :: "environment \<Rightarrow> RPCTester \<Rightarrow> bool \<times> RPCTester" where
  "testBlockNumber env t =
     catch_failed
       (testBlockNumber_body env (log (Testing ''eth_blockNumber (multiple calls)'') t))"

section \<open>Fee-history probe\<close>

text \<open>The test of lines 334 to 336 on the message of the Stage-1 error.\<close>

definition needsFallback :: "string \<Rightarrow> bool" where
  "needsFallback hexError =
     (str_includes hexError ''unmarshal'' \<or> str_includes hexError ''destruct'' \<or>
      str_includes hexError ''parse'' \<or> str_includes hexError ''invalid'' \<or>
      str_includes hexError ''type'' \<or> str_includes hexError ''expected'')"

definition feeHistoryParams :: "param \<Rightarrow> param list" where
  "feeHistoryParams blockCount = [blockCount, PStr ''latest'', PList [PNum 25, PNum 50, PNum 75]]"

text \<open>Lines 321 to 363: the two stages. The outcome is an exception, an early
  \<open>return\<close> (\<open>Inr (Inl b)\<close>), or the response to go on with and \<open>parameterFormat\<close>
  (\<open>None\<close> for \<open>null\<close>).\<close>

definition feeHistory_stages ::
  "environment \<Rightarrow> RPCTester
     \<Rightarrow> (exn + (bool + FeeHistoryResult RpcResponse \<times> format option)) \<times> RPCTester" where
  "feeHistory_stages env t0 =
     (case makeRequest (rpc_feeHistory env) ''eth_feeHistory'' (feeHistoryParams (PStr ''0xa'')) t0 of
        (Rejected msg, t1) \<Rightarrow> (Inl (Error msg), t1)
      | (Resolved response1, t1) \<Rightarrow>
          (case error response1 of
             None \<Rightarrow> (Inr (Inr (response1, Some hex)), t1)
           | Some error1 \<Rightarrow>
               (case (if needsFallback (message error1)
                      then
                        (case makeRequest (rpc_feeHistory env) ''eth_feeHistory''
                                (feeHistoryParams (PNum 10)) (log HexFormatFailed t1) of
                           (Rejected msg, t3) \<Rightarrow> (Inl (Error msg), t3)
                         | (Resolved response2, t3) \<Rightarrow>
                             (Inr (response2,
                                   if error response2 = None then Some number else None), t3))
                      else (Inr (response1, None), t1)) of
                  (Inl e, t4) \<Rightarrow> (Inl e, t4)
                | (Inr (response, parameterFormat), t4) \<Rightarrow>
                    (case error response of
                       None \<Rightarrow> (Inr (Inr (response, parameterFormat)), t4)
                     | Some err \<Rightarrow>
                         if str_includes (message err) ''not found'' \<or>
                            str_includes (message err) ''not supported''
                         then (Inr (Inl True),
                               (log Eip1559NotSupported t4)\<lparr>results_eip1559 := Some False\<rparr>)
                         else (Inl (Error (message err)), t4)))))"

text \<open>\<open>typeof v === 'number' ? `0x${v.toString(16)}` : v\<close>, for a value that may be
  \<open>undefined\<close> (an index past the end of an array).\<close>

definition hexLiteral :: "str_or_num option \<Rightarrow> string option" where
  "hexLiteral v =
     (case v of
        None \<Rightarrow> None
      | Some (Number n) \<Rightarrow> Some (''0x'' @ toString16 n)
      | Some (Str s) \<Rightarrow> Some s)"

text \<open>\<open>xs[i]\<close>: \<open>undefined\<close> past the end.\<close>

definition elementAt :: "'a list \<Rightarrow> nat \<Rightarrow> 'a option" where
  "elementAt xs i = (if i < length xs then Some (xs ! i) else None)"

text \<open>\<open>Number(BigInt(v)) / 1e9\<close>.\<close>

definition toGwei :: "string option \<Rightarrow> exn + number" where
  "toGwei v =
     (case BigInt v of
        Inl e \<Rightarrow> Inl e
      | Inr b \<Rightarrow> Inr (js_div (Number_of_BigInt b) (Num 1000000000)))"

text \<open>The \<open>reduce\<close> of lines 394 to 397, from the sum so far.\<close>

fun sumBaseFees :: "str_or_num list \<Rightarrow> number \<Rightarrow> exn + number" where
  "sumBaseFees [] sum0 = Inr sum0"
| "sumBaseFees (fee # fees) sum0 =
     (case toGwei (hexLiteral (Some fee)) of
        Inl e \<Rightarrow> Inl e
      | Inr g \<Rightarrow> sumBaseFees fees (js_add sum0 g))"

text \<open>Lines 402 to 413: the percentiles of the latest block.\<close>

definition reportPercentiles :: "FeeHistoryResult \<Rightarrow> RPCTester \<Rightarrow> (exn + unit) \<times> RPCTester" where
  "reportPercentiles feeHistory t0 =
     (case reward feeHistory of
        None \<Rightarrow> (Inr (), t0)
      | Some rewards \<Rightarrow>
          if rewards = [] then (Inr (), t0)
          else
            let latestRewards = last rewards in
            if latestRewards = [] then (Inr (), t0)
            else
              let t1 = log PriorityFeePercentiles t0;
                  reward25 = hexLiteral (elementAt latestRewards 0);
                  reward50 = hexLiteral (elementAt latestRewards 1);
                  reward75 = hexLiteral (elementAt latestRewards 2)
              in (case toGwei reward25 of
                    Inl e \<Rightarrow> (Inl e, t1)
                  | Inr g25 \<Rightarrow>
                      let t2 = log (Percentile 25 (toFixed 2 g25)) t1 in
                      (case toGwei reward50 of
                         Inl e \<Rightarrow> (Inl e, t2)
                       | Inr g50 \<Rightarrow>
                           let t3 = log (Percentile 50 (toFixed 2 g50)) t2 in
                           (case toGwei reward75 of
                              Inl e \<Rightarrow> (Inl e, t3)
                            | Inr g75 \<Rightarrow> (Inr (), log (Percentile 75 (toFixed 2 g75)) t3)))))"

text \<open>Lines 374 to 413: the branch taken when \<open>baseFeePerGas\<close> is present and not
  empty.\<close>

definition reportBaseFees ::
  "format option \<Rightarrow> FeeHistoryResult \<Rightarrow> str_or_num list \<Rightarrow> RPCTester \<Rightarrow> (exn + unit) \<times> RPCTester" where
  "reportBaseFees parameterFormat feeHistory fees t0 =
     (case toGwei (hexLiteral (Some (last fees))) of
        Inl e \<Rightarrow> (Inl e, t0)
      | Inr latestBaseFeeGwei \<Rightarrow>
          let t1 = log Eip1559Supported t0;
              t2 = (case parameterFormat of None \<Rightarrow> t1 | Some f \<Rightarrow> log (ParameterFormat f) t1);
              hasRewardField = (case reward feeHistory of None \<Rightarrow> False | Some rs \<Rightarrow> rs \<noteq> []);
              t3 = log (RewardField hasRewardField) t2;
              t4 = log (LatestBaseFee (toFixed 2 latestBaseFeeGwei)) t3
          in (case sumBaseFees fees (Num 0) of
                Inl e \<Rightarrow> (Inl e, t4)
              | Inr feeSum \<Rightarrow>
                  let avgBaseFee = js_div feeSum (Num (of_nat (length fees)));
                      t5 = log (AverageBaseFee (toFixed 2 avgBaseFee)) t4
                  in reportPercentiles feeHistory t5))"

text \<open>Lines 365 to 420: what follows the two stages.\<close>

definition feeHistory_report ::
  "format option \<Rightarrow> FeeHistoryResult RpcResponse \<Rightarrow> RPCTester \<Rightarrow> (exn + bool) \<times> RPCTester" where
  "feeHistory_report parameterFormat response t0 =
     (case result response of
        None \<Rightarrow> (Inl (Error ''No result returned''), t0)
      | Some feeHistory \<Rightarrow>
          let t1 = t0\<lparr>results_eip1559 := Some True\<rparr> in
          (case (case baseFeePerGas feeHistory of
                   None \<Rightarrow> (Inr (), (log LegacyGasPricing t1)\<lparr>results_eip1559 := Some False\<rparr>)
                 | Some fees \<Rightarrow>
                     if fees \<noteq> [] then reportBaseFees parameterFormat feeHistory fees t1
                     else (Inr (), (log LegacyGasPricing t1)\<lparr>results_eip1559 := Some False\<rparr>)) of
             (Inl e, t2) \<Rightarrow> (Inl e, t2)
           | (Inr u, t2) \<Rightarrow> (Inr True, log (ResponseTime (responseTime response)) t2)))"

definition testFeeHistory_body :: "environment \<Rightarrow> RPCTester \<Rightarrow> (exn + bool) \<times> RPCTester" where
  "testFeeHistory_body env t0 =
     (case feeHistory_stages env t0 of
        (Inl e, t1) \<Rightarrow> (Inl e, t1)
      | (Inr (Inl b), t1) \<Rightarrow> (Inr b, t1)
      | (Inr (Inr (response, parameterFormat)), t1) \<Rightarrow>
          feeHistory_report parameterFormat response t1)"

definition testFeeHistory :: "environment \<Rightarrow> RPCTester \<Rightarrow> bool \<times> RPCTester" where
  "testFeeHistory env t =
     catch_failed
       (testFeeHistory_body env (log (Testing ''eth_feeHistory (EIP-1559 support)'') t))"

section \<open>Suite runner\<close>

record Test =
  name :: string
  fn :: "RPCTester \<Rightarrow> (exn + bool) \<times> RPCTester"

text \<open>A probe as the asynchronous function the runner awaits: the five probes catch
  their own exceptions and always resolve.\<close>

definition resolves :: "(RPCTester \<Rightarrow> bool \<times> RPCTester) \<Rightarrow> RPCTester \<Rightarrow> (exn + bool) \<times> RPCTester" where
  "resolves probe t = (case probe t of (b, t') \<Rightarrow> (Inr b, t'))"

definition suite :: "environment \<Rightarrow> Test list" where
  "suite env =
     [\<lparr>name = ''eth_chainId'', fn = resolves (testChainId env)\<rparr>,
      \<lparr>name = ''eth_blockNumber'', fn = resolves (testBlockNumber env)\<rparr>,
      \<lparr>name = ''eth_getBalance'', fn = resolves (testGetBalance env)\<rparr>,
      \<lparr>name = ''eth_feeHistory'', fn = resolves (testFeeHistory env)\<rparr>,
      \<lparr>name = ''eth_gasPrice'', fn = resolves (testGasPrice env)\<rparr>]"

text \<open>The \<open>for (const test of tests)\<close> loop of lines 482 to 496, for any list of
  tests, with its \<open>try\<close> and \<open>catch\<close>.\<close>

fun run_tests :: "Test list \<Rightarrow> TestResult \<Rightarrow> RPCTester \<Rightarrow> TestResult \<times> RPCTester" where
  "run_tests [] results t = (results, t)"
| "run_tests (test # rest) results t =
     (case fn test t of
        (Inr ok, t1) \<Rightarrow>
          run_tests rest
            (if ok
             then results\<lparr>tests := (tests results)(name test \<mapsto> ok), passed := passed results + 1\<rparr>
             else results\<lparr>tests := (tests results)(name test \<mapsto> ok), failed := failed results + 1\<rparr>)
            t1
      | (Inl e, t1) \<Rightarrow>
          run_tests rest
            (results\<lparr>tests := (tests results)(name test \<mapsto> False), failed := failed results + 1\<rparr>)
            (log (Crashed (name test) e) t1))"

definition banner :: "RPCTester \<Rightarrow> RPCTester" where
  "banner t =
     log (Protocol (isHttps t))
       (log (RpcUrl (rpcUrl t))
          (log Rule (log (Title ''Ethereum RPC Endpoint Tester'') (log Rule t))))"

definition summary :: "nat \<Rightarrow> TestResult \<Rightarrow> RPCTester \<Rightarrow> RPCTester" where
  "summary n results t0 =
     (let t1 = log Rule (log (Title ''SUMMARY'') (log Rule t0));
          t2 = log (PassedFailed (passed results) (failed results)) t1;
          t3 = (case results_chainId t2 of
                  None \<Rightarrow> t2
                | Some c \<Rightarrow> if truthy c then log (SummaryChainId c) t2 else t2);
          t4 = (case results_blockNumber t3 of
                  None \<Rightarrow> t3
                | Some b \<Rightarrow> if truthy b then log (SummaryBlock b) t3 else t3);
          t5 = (case results_eip1559 t4 of
                  None \<Rightarrow> t4
                | Some e \<Rightarrow> log (GasModel e) t4)
      in if passed results = n then log AllPassed t5
         else if 0 < passed results then log SomeFailed t5
         else log AllFailed t5)"

definition runAllTests :: "environment \<Rightarrow> RPCTester \<Rightarrow> TestResult \<times> RPCTester" where
  "runAllTests env t =
     (case run_tests (suite env) \<lparr>passed = 0, failed = 0, tests = Map.empty\<rparr> (banner t) of
        (results, t1) \<Rightarrow> (results, summary (length (suite env)) results t1))"

section \<open>Entry point\<close>

text \<open>\<open>new RPCTester(rpcUrl, expectedChainId)\<close>, on the URL already parsed.\<close>

definition new_RPCTester :: "string \<Rightarrow> number option \<Rightarrow> URL \<Rightarrow> RPCTester" where
  "new_RPCTester url expected parsedUrl =
     \<lparr>rpcUrl = url, expectedChainId = expected, isHttps = (protocol parsedUrl = ''https:''),
      requestId = 0, results_chainId = None, results_blockNumber = None,
      results_eip1559 = None, console = [], wire = []\<rparr>"

text \<open>\<open>process.exit(results.failed > 0 ? 1 : 0)\<close>.\<close>

definition exitCode :: "TestResult \<Rightarrow> nat" where
  "exitCode results = (if 0 < failed results then 1 else 0)"

text \<open>\<open>main\<close>, from the arguments after the script's name, to the exit code and the
  lines printed. Nothing in \<open>runAllTests\<close> outside the \<open>try\<close> of its loop can throw
  in this model, so the \<open>Fatal error\<close> handler of \<open>main\<close> has no branch here.\<close>

definition main :: "environment \<Rightarrow> string list \<Rightarrow> nat \<times> line list" where
  "main env args =
     (case args of
        [] \<Rightarrow> (1, [Usage])
      | url # rest \<Rightarrow>
          let expected =
                (case rest of
                   [] \<Rightarrow> None
                 | a # _ \<Rightarrow> if a \<noteq> [] then Some (parseInt a 0) else None)
          in (case newURL env url of
                None \<Rightarrow> (1, [InvalidURL url])
              | Some parsedUrl \<Rightarrow>
                  (case runAllTests env (new_RPCTester url expected parsedUrl) of
                     (results, t) \<Rightarrow> (exitCode results, console t))))"

section \<open>Vocabulary of the properties\<close>

text \<open>The definitions of this section belong to the statements of the properties, not
  to the script.\<close>

text \<open>The \<open>k\<close>-th request written after the state \<open>t\<close>.\<close>

definition request :: "string \<Rightarrow> param list \<Rightarrow> RPCTester \<Rightarrow> nat \<Rightarrow> JsonRpcRequest" where
  "request m ps t k = \<lparr>method' = m, params = ps, id' = requestId t + k\<rparr>"

text \<open>The lines printed, and the requests written, between two states.\<close>

definition printed :: "RPCTester \<Rightarrow> RPCTester \<Rightarrow> line list" where
  "printed t t' = drop (length (console t)) (console t')"

definition written :: "RPCTester \<Rightarrow> RPCTester \<Rightarrow> JsonRpcRequest list" where
  "written t t' = drop (length (wire t)) (wire t')"

text \<open>A call that succeeds with a result: the promise resolves, the response has no
  error, and its result is a string that is not empty.\<close>

definition answered :: "string reply \<Rightarrow> bool" where
  "answered reply =
     (case reply of
        Rejected msg \<Rightarrow> False
      | Resolved response \<Rightarrow>
          error response = None \<and> (case result response of None \<Rightarrow> False | Some r \<Rightarrow> r \<noteq> []))"

text \<open>The warning printed for an expected chain id.\<close>

definition warning :: "number option \<Rightarrow> number \<Rightarrow> line list" where
  "warning expected chainId =
     (case expected of
        None \<Rightarrow> []
      | Some e \<Rightarrow> if truthy e \<and> js_neq chainId e then [ChainIdWarning e chainId] else [])"

text \<open>The two requests of the fee-history probe, the test that decides on Stage 2 from
  the reply to Stage 1, the reply that the probe goes on with, and the test for an
  endpoint without the method.\<close>

definition stage1 :: "RPCTester \<Rightarrow> JsonRpcRequest" where
  "stage1 t =
     request ''eth_feeHistory'' [PStr ''0xa'', PStr ''latest'', PList [PNum 25, PNum 50, PNum 75]] t 1"

definition stage2 :: "RPCTester \<Rightarrow> JsonRpcRequest" where
  "stage2 t =
     request ''eth_feeHistory'' [PNum 10, PStr ''latest'', PList [PNum 25, PNum 50, PNum 75]] t 2"

definition fallback :: "FeeHistoryResult reply \<Rightarrow> bool" where
  "fallback reply1 =
     (case reply1 of
        Rejected msg \<Rightarrow> False
      | Resolved response \<Rightarrow>
          (case error response of None \<Rightarrow> False | Some e \<Rightarrow> needsFallback (message e)))"

definition finalReply :: "environment \<Rightarrow> RPCTester \<Rightarrow> FeeHistoryResult reply" where
  "finalReply env t =
     (if fallback (rpc_feeHistory env (stage1 t)) then rpc_feeHistory env (stage2 t)
      else rpc_feeHistory env (stage1 t))"

definition unsupported :: "string \<Rightarrow> bool" where
  "unsupported msg = (str_includes msg ''not found'' \<or> str_includes msg ''not supported'')"

definition stagesWritten :: "environment \<Rightarrow> RPCTester \<Rightarrow> JsonRpcRequest list" where
  "stagesWritten env t =
     (if fallback (rpc_feeHistory env (stage1 t)) then [stage1 t, stage2 t] else [stage1 t])"

definition stagesPrinted :: "environment \<Rightarrow> RPCTester \<Rightarrow> line list" where
  "stagesPrinted env t =
     Testing ''eth_feeHistory (EIP-1559 support)'' #
     (if fallback (rpc_feeHistory env (stage1 t)) then [HexFormatFailed] else [])"

text \<open>The state in which the two stages leave the tester.\<close>

definition afterStages :: "environment \<Rightarrow> RPCTester \<Rightarrow> RPCTester" where
  "afterStages env t =
     (if fallback (rpc_feeHistory env (stage1 t))
      then t\<lparr>requestId := requestId t + 2, wire := wire t @ [stage1 t, stage2 t],
             console := console t @ [HexFormatFailed]\<rparr>
      else t\<lparr>requestId := requestId t + 1, wire := wire t @ [stage1 t]\<rparr>)"

section \<open>Example endpoints\<close>

definition success :: "'a \<Rightarrow> 'a reply" where
  "success r =
     Resolved \<lparr>result = Some r, error = None, responseTime = 12, httpVersion = ''1.1'',
               statusCode = Some 200\<rparr>"

definition failure :: "string \<Rightarrow> 'a reply" where
  "failure msg =
     Resolved \<lparr>result = None, error = Some \<lparr>code = - 32601, message = msg\<rparr>,
               responseTime = 7, httpVersion = ''1.1'', statusCode = Some 200\<rparr>"

definition localhost :: URL where
  "localhost = \<lparr>protocol = ''http:'', hostname = ''localhost'', port = ''8545'', pathname = ''/''\<rparr>"

definition fresh :: RPCTester where
  "fresh = new_RPCTester ''http://localhost:8545'' (Some (Num 1)) localhost"

definition node ::
  "(JsonRpcRequest \<Rightarrow> string reply) \<Rightarrow> (JsonRpcRequest \<Rightarrow> FeeHistoryResult reply) \<Rightarrow> environment" where
  "node s f =
     \<lparr>TEST_ADDRESS = '''', newURL = (\<lambda>u. Some localhost), rpc_string = s, rpc_feeHistory = f\<rparr>"

definition history :: "str_or_num list \<Rightarrow> str_or_num list list option \<Rightarrow> FeeHistoryResult" where
  "history base rewards =
     \<lparr>baseFeePerGas = Some base, gasUsedRatio = [], oldestBlock = ''0x1'', reward = rewards\<rparr>"

text \<open>A development chain with id 1337, asked by a caller who expects chain 1.\<close>

definition devnet :: environment where
  "devnet = node (\<lambda>req. success ''0x539'') (\<lambda>req. failure ''method not found'')"

text \<open>An endpoint that rejects the hexadecimal block count and accepts the number.\<close>

definition numeric :: environment where
  "numeric =
     node (\<lambda>req. success ''0x1'')
       (\<lambda>req. if params req = [PNum 10, PStr ''latest'', PList [PNum 25, PNum 50, PNum 75]]
              then success (history [Str ''0x3b9aca00''] None)
              else failure ''invalid argument 0: json: cannot unmarshal string'')"

text \<open>An element of a fee array that \<open>BigInt\<close> accepts, and a \<open>reward\<close> field whose
  percentiles the probe can print: absent, empty, ending in an empty block, or ending in
  a block with at least three entries of which the first three are accepted.\<close>

definition wellFormed :: "str_or_num \<Rightarrow> bool" where
  "wellFormed fee = (case BigInt (hexLiteral (Some fee)) of Inl e \<Rightarrow> False | Inr b \<Rightarrow> True)"

definition percentilesReadable :: "FeeHistoryResult \<Rightarrow> bool" where
  "percentilesReadable fh =
     (case reward fh of
        None \<Rightarrow> True
      | Some rewards \<Rightarrow>
          rewards = [] \<or> last rewards = [] \<or>
          (3 \<le> length (last rewards) \<and> list_all wellFormed (take 3 (last rewards))))"

definition hasBaseFees :: "FeeHistoryResult \<Rightarrow> bool" where
  "hasBaseFees fh = (case baseFeePerGas fh of None \<Rightarrow> False | Some base \<Rightarrow> base \<noteq> [])"

text \<open>The average base fees among some printed lines.\<close>

definition averages :: "line list \<Rightarrow> fixed list" where
  "averages ls = concat (map (\<lambda>l. case l of AverageBaseFee x \<Rightarrow> [x] | _ \<Rightarrow> []) ls)"

text \<open>The gwei value of an integer of wei as the script computes it,
  \<open>Number(b) / 1e9\<close>, and the mean it computes from the integers of an array: the
  \<open>reduce\<close> adds the gwei values from the left, starting at \<open>0\<close>, and the sum is
  divided by the length, every step in binary64.\<close>

definition gweiOf :: "int \<Rightarrow> number" where
  "gweiOf b = js_div (Number_of_BigInt b) (Num 1000000000)"

definition meanGwei :: "int list \<Rightarrow> number" where
  "meanGwei bs =
     js_div (foldl (\<lambda>s b. js_add s (gweiOf b)) (Num 0) bs) (Num (of_nat (length bs)))"

text \<open>A \<open>reward\<close> field whose latest block has one or two entries.\<close>

definition shortRewards :: "FeeHistoryResult \<Rightarrow> bool" where
  "shortRewards fh =
     (case reward fh of
        None \<Rightarrow> False
      | Some rewards \<Rightarrow> rewards \<noteq> [] \<and> last rewards \<noteq> [] \<and> length (last rewards) < 3)"

text \<open>An endpoint whose fee history holds a base fee that is no number, and one whose
  latest block has two reward percentiles only.\<close>

definition garbled :: environment where
  "garbled = node (\<lambda>req. success ''0x1'') (\<lambda>req. success (history [Str ''1 gwei''] None))"

definition short :: environment where
  "short =
     node (\<lambda>req. success ''0x1'')
       (\<lambda>req. success (history [Str ''0x3b9aca00''] (Some [[Str ''0x1'', Str ''0x2'']])))"

text \<open>An endpoint with base fees in both encodings and three percentiles.\<close>

definition mixed :: environment where
  "mixed =
     node (\<lambda>req. success ''0x1'')
       (\<lambda>req. success (history [Str ''0x3b9aca00'', Number (Num 1000000000)]
                         (Some [[Str ''0x1'', Number (Num 2), Str ''0x3'']])))"

text \<open>The integer that a reply with a quantity yields: the promise resolves, the
  response has no error, and its result is a string, not empty, that \<open>BigInt\<close>
  accepts.\<close>

definition quantity :: "string reply \<Rightarrow> int option" where
  "quantity reply =
     (case reply of
        Rejected msg \<Rightarrow> None
      | Resolved response \<Rightarrow>
          (case error response of
             Some e \<Rightarrow> None
           | None \<Rightarrow>
               (case result response of
                  None \<Rightarrow> None
                | Some r \<Rightarrow> if r = [] then None else StringToBigInt r)))"

text \<open>The \<open>k\<close>-th request after \<open>t\<close>, when it asks for the balance of an address.\<close>

definition balanceRequest :: "string \<Rightarrow> RPCTester \<Rightarrow> nat \<Rightarrow> JsonRpcRequest" where
  "balanceRequest address t k = request ''eth_getBalance'' [PStr address, PStr ''latest''] t k"

text \<open>An endpoint that rejects the empty address, run with no address configured.\<close>

definition strict :: environment where
  "strict =
     node (\<lambda>req. if params req = [PStr '''', PStr ''latest'']
                  then failure ''invalid argument 0: hex string has length 0, want 40''
                  else success ''0x0'')
       (\<lambda>req. failure ''method not found'')"

text \<open>The block number read from the reply to \<open>eth_blockNumber\<close> (\<open>None\<close> when the
  call fails or has no result), and the five samples of the block-activity probe run
  from the state \<open>t\<close>, in the order of the calls.\<close>

definition sample :: "string reply \<Rightarrow> number option" where
  "sample reply =
     (case reply of
        Rejected msg \<Rightarrow> None
      | Resolved response \<Rightarrow>
          (case error response of
             Some e \<Rightarrow> None
           | None \<Rightarrow>
               (case result response of
                  None \<Rightarrow> None
                | Some r \<Rightarrow> if r = [] then None else Some (parseInt r 16))))"

definition samplesFrom :: "environment \<Rightarrow> RPCTester \<Rightarrow> nat \<Rightarrow> number option list" where
  "samplesFrom env t n =
     map (\<lambda>k. sample (rpc_string env (request ''eth_blockNumber'' [] t k))) [1 ..< Suc n]"

definition samples :: "environment \<Rightarrow> RPCTester \<Rightarrow> number option list" where
  "samples env t = samplesFrom env t numCalls"

text \<open>Whether the probe reported the network as active between two states.\<close>

definition liveness :: "RPCTester \<Rightarrow> RPCTester \<Rightarrow> bool" where
  "liveness t t' = (NetworkActive \<in> set (printed t t'))"

text \<open>An endpoint whose block number advances during the probe, and one that answers
  the second call with a block tag.\<close>

definition ticking :: environment where
  "ticking =
     node (\<lambda>req. success (if id' req \<le> 2 then ''0x64'' else if id' req \<le> 4 then ''0x65''
                          else ''0x66''))
       (\<lambda>req. failure ''method not found'')"

definition tagging :: environment where
  "tagging =
     node (\<lambda>req. success (if id' req = 1 then ''0x64'' else if id' req = 2 then ''pending''
                          else ''0x65''))
       (\<lambda>req. failure ''method not found'')"

text \<open>What the runner makes of one test started in the state \<open>s\<close>: its boolean, or
  \<open>false\<close> and a line when it throws. The outcomes of a list of tests, each started
  in the state that the one before it left, and the state after the last.\<close>

definition settle :: "Test \<Rightarrow> RPCTester \<Rightarrow> bool \<times> RPCTester" where
  "settle test s =
     (case fn test s of
        (Inr ok, s1) \<Rightarrow> (ok, s1)
      | (Inl e, s1) \<Rightarrow> (False, log (Crashed (name test) e) s1))"

fun outcomes :: "Test list \<Rightarrow> RPCTester \<Rightarrow> bool list" where
  "outcomes [] s = []"
| "outcomes (test # rest) s = fst (settle test s) # outcomes rest (snd (settle test s))"

fun finalState :: "Test list \<Rightarrow> RPCTester \<Rightarrow> RPCTester" where
  "finalState [] s = s"
| "finalState (test # rest) s = finalState rest (snd (settle test s))"

definition probeNames :: "string list" where
  "probeNames =
     [''eth_chainId'', ''eth_blockNumber'', ''eth_getBalance'', ''eth_feeHistory'',
      ''eth_gasPrice'']"

text \<open>A score sheet with one more outcome.\<close>

definition recorded :: "TestResult \<Rightarrow> string \<Rightarrow> bool \<Rightarrow> TestResult" where
  "recorded r n ok =
     r\<lparr>tests := (tests r)(n \<mapsto> ok),
       passed := passed r + (if ok then 1 else 0),
       failed := failed r + (if ok then 0 else 1)\<rparr>"

definition blank :: TestResult where
  "blank = \<lparr>passed = 0, failed = 0, tests = Map.empty\<rparr>"

text \<open>Two tests, of which the first prints a line and throws.\<close>

definition crashing :: "Test list" where
  "crashing =
     [\<lparr>name = ''boom'', fn = (\<lambda>s. (Inl TypeError, log Rule s))\<rparr>,
      \<lparr>name = ''fine'', fn = (\<lambda>s. (Inr True, s))\<rparr>]"

section \<open>Auxiliary facts\<close>

lemma str_includes_trans: "str_includes s t \<Longrightarrow> str_includes t u \<Longrightarrow> str_includes s u"
  unfolding str_includes_def by (rule sublist_order.order.trans)

lemma makeRequest_eq:
  "makeRequest endpoint m ps t =
     (endpoint (request m ps t 1),
      t\<lparr>requestId := requestId t + 1, wire := wire t @ [request m ps t 1]\<rparr>)"
  by (simp add: makeRequest_def request_def Let_def)

lemma request_log [simp]: "request m ps (log l t) k = request m ps t k"
  by (simp add: request_def log_def)

lemma stage_log [simp]: "stage1 (log l t) = stage1 t" "stage2 (log l t) = stage2 t"
  by (simp_all add: stage1_def stage2_def)

lemma finalReply_log [simp]: "finalReply env (log l t) = finalReply env t"
  by (simp add: finalReply_def)

lemma log_fields [simp]:
  "wire (log l t) = wire t" "requestId (log l t) = requestId t"
  "console (log l t) = console t @ [l]"
  "results_eip1559 (log l t) = results_eip1559 t"
  "results_chainId (log l t) = results_chainId t"
  "results_blockNumber (log l t) = results_blockNumber t"
  "expectedChainId (log l t) = expectedChainId t"
  by (simp_all add: log_def)

lemma printed_append [simp]: "printed t (t'\<lparr>console := console t @ ls\<rparr>) = ls"
  by (simp add: printed_def)

lemma written_append [simp]: "written t (t'\<lparr>wire := wire t @ rs\<rparr>) = rs"
  by (simp add: written_def)

subsection \<open>The chain-identity probe\<close>

lemma testChainId_fst:
  "fst (testChainId env t) = answered (rpc_string env (request ''eth_chainId'' [] t 1))"
  by (simp add: testChainId_def testChainId_body_def catch_failed_def makeRequest_eq answered_def
      log_def request_def Let_def split: reply.splits option.splits prod.splits)

lemma testChainId_pass:
  assumes "rpc_string env (request ''eth_chainId'' [] t 1) = Resolved response"
    and "error response = None" and "result response = Some r" and "r \<noteq> []"
  shows "testChainId env t =
     (True, t\<lparr>requestId := requestId t + 1,
              wire := wire t @ [request ''eth_chainId'' [] t 1],
              results_chainId := Some (parseInt r 16),
              console := console t @
                [Testing ''eth_chainId'', ChainId (parseInt r 16) (chainName (parseInt r 16)),
                 ResponseTime (responseTime response)] @
                warning (expectedChainId t) (parseInt r 16)\<rparr>)"
  using assms
  by (simp add: testChainId_def testChainId_body_def catch_failed_def makeRequest_eq warning_def
      log_def request_def Let_def split: option.splits)

subsection \<open>The fee-history probe\<close>

lemma feeHistory_stages_eq:
  "feeHistory_stages env t =
     (case finalReply env t of
        Rejected msg \<Rightarrow> (Inl (Error msg), afterStages env t)
      | Resolved response \<Rightarrow>
          (case error response of
             None \<Rightarrow>
               (Inr (Inr (response,
                    Some (if fallback (rpc_feeHistory env (stage1 t)) then number else hex))),
                afterStages env t)
           | Some e \<Rightarrow>
               if unsupported (message e)
               then (Inr (Inl True),
                     (log Eip1559NotSupported (afterStages env t))\<lparr>results_eip1559 := Some False\<rparr>)
               else (Inl (Error (message e)), afterStages env t)))"
  by (simp add: feeHistory_stages_def makeRequest_eq finalReply_def afterStages_def fallback_def
      unsupported_def stage1_def stage2_def feeHistoryParams_def request_def log_def Let_def
      split: reply.splits option.splits prod.splits)

lemma afterStages_fields [simp]:
  "wire (afterStages env (log l t)) = wire t @ stagesWritten env t"
  "console (afterStages env (log (Testing ''eth_feeHistory (EIP-1559 support)'') t)) =
     console t @ stagesPrinted env t"
  "results_eip1559 (afterStages env t) = results_eip1559 t"
  by (simp_all add: afterStages_def stagesWritten_def stagesPrinted_def)

lemma reportPercentiles_wire [simp]: "wire (snd (reportPercentiles fh t)) = wire t"
  by (simp add: reportPercentiles_def Let_def split: option.splits sum.splits)

lemma reportPercentiles_eip [simp]:
  "results_eip1559 (snd (reportPercentiles fh t)) = results_eip1559 t"
  by (simp add: reportPercentiles_def Let_def split: option.splits sum.splits)

lemma reportBaseFees_wire [simp]: "wire (snd (reportBaseFees pf fh fees t)) = wire t"
  by (simp add: reportBaseFees_def Let_def split: option.splits sum.splits)

lemma reportBaseFees_eip [simp]:
  "results_eip1559 (snd (reportBaseFees pf fh fees t)) = results_eip1559 t"
  by (simp add: reportBaseFees_def Let_def split: option.splits sum.splits)

lemma finish_wire:
  "wire (snd (case p of (Inl e, t2) \<Rightarrow> (A e t2, t2) | (Inr u, t2) \<Rightarrow> (B u t2, log l t2))) =
     wire (snd p)"
  by (cases p; cases "fst p") auto

lemma finish_eip:
  "results_eip1559
     (snd (case p of (Inl e, t2) \<Rightarrow> (A e t2, t2) | (Inr u, t2) \<Rightarrow> (B u t2, log l t2))) =
   results_eip1559 (snd p)"
  by (cases p; cases "fst p") auto

lemma feeHistory_report_wire [simp]: "wire (snd (feeHistory_report pf response t)) = wire t"
  by (simp add: feeHistory_report_def Let_def finish_wire split: option.splits)

lemma catch_failed_wire [simp]: "wire (snd (catch_failed r)) = wire (snd r)"
  by (simp add: catch_failed_def split: prod.splits sum.splits)

lemma catch_failed_eip [simp]:
  "results_eip1559 (snd (catch_failed r)) = results_eip1559 (snd r)"
  by (simp add: catch_failed_def split: prod.splits sum.splits)

lemma catch_failed_fst: "fst (catch_failed r) = (fst r = Inr True)"
  by (auto simp add: catch_failed_def split: prod.splits sum.splits)

lemma testFeeHistory_wire:
  "wire (snd (testFeeHistory env t)) = wire t @ stagesWritten env t"
  by (simp add: testFeeHistory_def testFeeHistory_body_def feeHistory_stages_eq
      split: reply.splits option.splits)

lemma testFeeHistory_error:
  assumes "finalReply env t = Resolved response" and "error response = Some e"
  shows "testFeeHistory env t =
     (if unsupported (message e)
      then (True,
            (log Eip1559NotSupported
               (afterStages env (log (Testing ''eth_feeHistory (EIP-1559 support)'') t)))
            \<lparr>results_eip1559 := Some False\<rparr>)
      else (False,
            log (Failed (Error (message e)))
              (afterStages env (log (Testing ''eth_feeHistory (EIP-1559 support)'') t))))"
  using assms
  by (simp add: testFeeHistory_def testFeeHistory_body_def feeHistory_stages_eq catch_failed_def)

lemma testFeeHistory_success:
  assumes "finalReply env t = Resolved response" and "error response = None"
  shows "testFeeHistory env t =
     catch_failed
       (feeHistory_report
          (Some (if fallback (rpc_feeHistory env (stage1 t)) then number else hex)) response
          (afterStages env (log (Testing ''eth_feeHistory (EIP-1559 support)'') t)))"
  using assms
  by (simp add: testFeeHistory_def testFeeHistory_body_def feeHistory_stages_eq)

lemma feeHistory_report_eip:
  assumes "result response = Some fh"
  shows "results_eip1559 (snd (feeHistory_report pf response t)) = Some (hasBaseFees fh)"
  using assms
  by (simp add: feeHistory_report_def Let_def finish_eip hasBaseFees_def split: option.splits)

lemma finish_fst:
  "fst (case p of (Inl e, t2) \<Rightarrow> (Inl e, t2) | (Inr u, t2) \<Rightarrow> (Inr True, B t2)) = Inr True
     \<longleftrightarrow> (\<exists>u. fst p = Inr u)"
  by (cases p; cases "fst p") auto

lemma feeHistory_report_fst:
  assumes "result response = Some fh"
  shows "fst (feeHistory_report pf response t) = Inr True \<longleftrightarrow>
     (\<forall>base. baseFeePerGas fh = Some base \<and> base \<noteq> [] \<longrightarrow>
        (\<exists>u. fst (reportBaseFees pf fh base (t\<lparr>results_eip1559 := Some True\<rparr>)) = Inr u))"
  using assms
  by (simp add: feeHistory_report_def Let_def finish_fst split: option.splits)

lemma toGwei_None [simp]: "toGwei None = Inl TypeError"
  by (simp add: toGwei_def BigInt_def)

lemma hexLiteral_None [simp]: "hexLiteral None = None"
  by (simp add: hexLiteral_def)

lemma reportPercentiles_short:
  assumes "reward fh = Some rewards" and "rewards \<noteq> []" and "last rewards \<noteq> []"
    and "length (last rewards) < 3"
  shows "\<exists>e. fst (reportPercentiles fh t) = Inl e"
  using assms
  by (simp add: reportPercentiles_def Let_def elementAt_def split: sum.splits)

lemma reportBaseFees_short:
  assumes "reward fh = Some rewards" and "rewards \<noteq> []" and "last rewards \<noteq> []"
    and "length (last rewards) < 3"
  shows "\<exists>e. fst (reportBaseFees pf fh base t) = Inl e"
  using reportPercentiles_short [OF assms]
  by (simp add: reportBaseFees_def Let_def split: sum.splits)

lemma toGwei_wellFormed:
  assumes "wellFormed fee"
  shows "\<exists>g. toGwei (hexLiteral (Some fee)) = Inr g"
proof (cases "BigInt (hexLiteral (Some fee))")
  case (Inl e)
  with assms show ?thesis by (simp add: wellFormed_def)
next
  case (Inr b)
  then have "toGwei (hexLiteral (Some fee)) =
      Inr (js_div (Number_of_BigInt b) (Num 1000000000))"
    by (simp add: toGwei_def)
  then show ?thesis ..
qed

lemma sumBaseFees_wellFormed:
  "list_all wellFormed base \<Longrightarrow> \<exists>s. sumBaseFees base a = Inr s"
proof (induction base arbitrary: a)
  case Nil
  then show ?case by simp
next
  case (Cons fee base)
  then obtain g where "toGwei (hexLiteral (Some fee)) = Inr g"
    using toGwei_wellFormed by auto
  with Cons show ?case by simp
qed

lemma reportPercentiles_readable:
  assumes "percentilesReadable fh"
  shows "\<exists>u. fst (reportPercentiles fh t) = Inr u"
proof (cases "reward fh")
  case None
  then show ?thesis by (simp add: reportPercentiles_def)
next
  case (Some rewards)
  show ?thesis
  proof (cases "rewards = [] \<or> last rewards = []")
    case True
    with Some show ?thesis by (auto simp add: reportPercentiles_def Let_def)
  next
    case False
    with Some assms have len: "3 \<le> length (last rewards)"
      and wf: "list_all wellFormed (take 3 (last rewards))"
      by (simp_all add: percentilesReadable_def)
    have "\<forall>i<3. wellFormed (last rewards ! i)"
    proof (intro allI impI)
      fix i :: nat
      assume "i < 3"
      with len have "take 3 (last rewards) ! i = last rewards ! i" and "i < length (take 3 (last rewards))"
        by simp_all
      with wf show "wellFormed (last rewards ! i)"
        by (metis list_all_length)
    qed
    then have w: "wellFormed (last rewards ! 0)" "wellFormed (last rewards ! 1)"
      "wellFormed (last rewards ! 2)"
      by simp_all
    obtain g0 where g0: "toGwei (hexLiteral (Some (last rewards ! 0))) = Inr g0"
      using toGwei_wellFormed [OF w(1)] by auto
    obtain g1 where g1: "toGwei (hexLiteral (Some (last rewards ! 1))) = Inr g1"
      using toGwei_wellFormed [OF w(2)] by auto
    obtain g2 where g2: "toGwei (hexLiteral (Some (last rewards ! 2))) = Inr g2"
      using toGwei_wellFormed [OF w(3)] by auto
    from Some False len g0 g1 g2 show ?thesis
      by (simp add: reportPercentiles_def Let_def elementAt_def)
  qed
qed

lemma reportBaseFees_readable:
  assumes "base \<noteq> []" and "list_all wellFormed base" and "percentilesReadable fh"
  shows "\<exists>u. fst (reportBaseFees pf fh base t) = Inr u"
proof -
  from assms have "wellFormed (last base)"
    by (simp add: list_all_iff)
  then obtain g where g: "toGwei (hexLiteral (Some (last base))) = Inr g"
    using toGwei_wellFormed by auto
  obtain s where s: "sumBaseFees base (Num 0) = Inr s"
    using sumBaseFees_wellFormed [OF assms(2)] by auto
  from g s reportPercentiles_readable [OF assms(3)] show ?thesis
    by (simp add: reportBaseFees_def Let_def)
qed

lemma wellFormed_iff: "wellFormed fee \<longleftrightarrow> (\<exists>g. toGwei (hexLiteral (Some fee)) = Inr g)"
  by (cases "BigInt (hexLiteral (Some fee))") (simp_all add: wellFormed_def toGwei_def)

lemma sumBaseFees_Inr:
  "sumBaseFees base a = Inr s \<Longrightarrow> list_all wellFormed base"
proof (induction base arbitrary: a)
  case Nil
  then show ?case by simp
next
  case (Cons fee base)
  show ?case
  proof (cases "toGwei (hexLiteral (Some fee))")
    case (Inl e)
    with Cons.prems show ?thesis by simp
  next
    case (Inr g)
    with Cons.prems have "sumBaseFees base (js_add a g) = Inr s"
      by simp
    then have "list_all wellFormed base"
      by (rule Cons.IH)
    moreover from Inr have "wellFormed fee"
      by (simp add: wellFormed_iff)
    ultimately show ?thesis by simp
  qed
qed

lemma reportBaseFees_malformed:
  assumes "\<not> list_all wellFormed base"
  shows "\<exists>e. fst (reportBaseFees pf fh base t) = Inl e"
proof -
  have "\<exists>e. sumBaseFees base (Num 0) = Inl e"
    using assms sumBaseFees_Inr [of base "Num 0"]
    by (cases "sumBaseFees base (Num 0)") auto
  then show ?thesis
    by (auto simp add: reportBaseFees_def Let_def split: sum.splits)
qed

lemma take_3: "3 \<le> length xs \<Longrightarrow> take 3 xs = [xs ! 0, xs ! 1, xs ! 2]"
  by (cases xs; cases "tl xs"; cases "tl (tl xs)") (auto simp add: numeral_3_eq_3)

lemma reportPercentiles_unreadable:
  assumes "\<not> shortRewards fh" and "\<not> percentilesReadable fh"
  shows "\<exists>e. fst (reportPercentiles fh t) = Inl e"
proof -
  from assms obtain rewards where r: "reward fh = Some rewards" "rewards \<noteq> []"
    "last rewards \<noteq> []" "3 \<le> length (last rewards)"
    "\<not> list_all wellFormed (take 3 (last rewards))"
    by (auto simp add: shortRewards_def percentilesReadable_def split: option.splits)
  from r(4,5) have "\<not> (wellFormed (last rewards ! 0) \<and> wellFormed (last rewards ! 1) \<and>
      wellFormed (last rewards ! 2))"
    by (simp add: take_3)
  then have "\<not> ((\<exists>g. toGwei (hexLiteral (Some (last rewards ! 0))) = Inr g) \<and>
      (\<exists>g. toGwei (hexLiteral (Some (last rewards ! 1))) = Inr g) \<and>
      (\<exists>g. toGwei (hexLiteral (Some (last rewards ! 2))) = Inr g))"
    by (simp add: wellFormed_iff)
  with r(1-4) show ?thesis
    by (auto simp add: reportPercentiles_def Let_def elementAt_def split: sum.splits)
qed

lemma reportBaseFees_unreadable:
  assumes "\<not> shortRewards fh" and "\<not> percentilesReadable fh"
  shows "\<exists>e. fst (reportBaseFees pf fh base t) = Inl e"
  using reportPercentiles_unreadable [OF assms]
  by (simp add: reportBaseFees_def Let_def split: sum.splits)

subsection \<open>Hexadecimal text and integers\<close>

lemma hexChar_digit:
  assumes "0 \<le> d" and "d < 16"
  shows "radixDigit 16 (hexChar d) = Some d"
proof -
  have "(48 + d) mod 256 = 48 + d" "(87 + d) mod 256 = 87 + d"
    using assms by simp_all
  with assms show ?thesis
    by (simp add: radixDigit_def digitVal_def hexChar_def Let_def)
qed

lemma digit_not_white: "isDigit R c \<Longrightarrow> \<not> isWhiteSpace c"
  by (auto simp add: isDigit_def radixDigit_def digitVal_def isWhiteSpace_def Let_def
      split: if_splits)

lemma digitsValue_snoc:
  "digitsValue R (ds @ [c]) =
     (case radixDigit R c of Some d \<Rightarrow> digitsValue R ds * R + d | None \<Rightarrow> digitsValue R ds)"
  by (simp add: digitsValue_def split: option.splits)

lemma toHex_digits:
  "0 \<le> n \<Longrightarrow> toHex n \<noteq> [] \<and> list_all (isDigit 16) (toHex n) \<and> digitsValue 16 (toHex n) = n"
proof (induction n rule: toHex.induct)
  case (1 n)
  show ?case
  proof (cases "n < 16")
    case True
    with 1(2) hexChar_digit [of n] have "radixDigit 16 (hexChar n) = Some n"
      by simp
    with True show ?thesis
      by (simp add: toHex.simps [of n] isDigit_def digitsValue_def)
  next
    case False
    with 1 have IH: "toHex (n div 16) \<noteq> [] \<and> list_all (isDigit 16) (toHex (n div 16)) \<and>
        digitsValue 16 (toHex (n div 16)) = n div 16"
      by simp
    have d: "radixDigit 16 (hexChar (n mod 16)) = Some (n mod 16)"
      by (rule hexChar_digit) simp_all
    then have "isDigit 16 (hexChar (n mod 16))"
      by (simp add: isDigit_def)
    with False IH d show ?thesis
      by (simp add: toHex.simps [of n] digitsValue_snoc)
  qed
qed

lemma trim_hex:
  assumes "ds \<noteq> []" and "list_all (isDigit 16) ds"
  shows "trim (''0x'' @ ds) = ''0x'' @ ds"
proof -
  have 0: "\<not> isWhiteSpace CHR ''0''"
    by (simp add: isWhiteSpace_def)
  from assms have "isDigit 16 (last ds)"
    by (simp add: list_all_iff)
  then have "\<not> isWhiteSpace (last ds)"
    by (rule digit_not_white)
  with assms(1) have "dropWhile isWhiteSpace (rev ds @ ''x0'') = rev ds @ ''x0''"
    by (cases ds rule: rev_cases) simp_all
  with 0 show ?thesis
    by (simp add: trim_def)
qed

lemma StringToBigInt_hex:
  assumes "ds \<noteq> []" and "list_all (isDigit 16) ds"
  shows "StringToBigInt (''0x'' @ ds) = Some (digitsValue 16 ds)"
  using assms trim_hex [OF assms]
  by (simp add: StringToBigInt_def hasPrefix0_def radixLiteral_def Let_def)

lemma toString16_int: "0 \<le> n \<Longrightarrow> toString16 (Num (of_int n)) = toHex n"
  by (simp add: toString16_def Let_def)

lemma BigInt_Str:
  assumes "ds \<noteq> []" and "list_all (isDigit 16) ds"
  shows "BigInt (hexLiteral (Some (Str (''0x'' @ ds)))) = Inr (digitsValue 16 ds)"
  using StringToBigInt_hex [OF assms] by (simp add: BigInt_def hexLiteral_def)

lemma BigInt_Number:
  assumes "0 \<le> n"
  shows "BigInt (hexLiteral (Some (Number (Num (of_int n))))) = Inr n"
  using toHex_digits [OF assms] StringToBigInt_hex [of "toHex n"] assms
  by (simp add: BigInt_def hexLiteral_def toString16_int)

lemma sumBaseFees_mean:
  "list_all2 (\<lambda>fee b. BigInt (hexLiteral (Some fee)) = Inr b) base bs \<Longrightarrow>
   sumBaseFees base a = Inr (foldl (\<lambda>s b. js_add s (gweiOf b)) a bs)"
proof (induction base arbitrary: a bs)
  case Nil
  then show ?case by simp
next
  case (Cons fee base)
  then obtain b bs' where bs: "bs = b # bs'" "BigInt (hexLiteral (Some fee)) = Inr b"
    "list_all2 (\<lambda>fee b. BigInt (hexLiteral (Some fee)) = Inr b) base bs'"
    by (auto simp add: list_all2_Cons1)
  with Cons.IH [of bs' "js_add a (gweiOf b)"] show ?case
    by (simp add: toGwei_def gweiOf_def)
qed

subsection \<open>What the fee-history probe prints\<close>

lemma averages_simps [simp]:
  "averages [] = []"
  "averages (xs @ ys) = averages xs @ averages ys"
  "averages (AverageBaseFee x # xs) = x # averages xs"
  by (simp_all add: averages_def)

lemma printed_eq: "console t' = console t @ ls \<Longrightarrow> printed t t' = ls"
  by (simp add: printed_def)

lemma reportPercentiles_console:
  "\<exists>ls. console (snd (reportPercentiles fh t)) = console t @ ls \<and> averages ls = []"
  by (simp add: reportPercentiles_def Let_def averages_def split: option.splits sum.splits)

lemma reportBaseFees_console:
  assumes "toGwei (hexLiteral (Some (last base))) = Inr g"
    and "sumBaseFees base (Num 0) = Inr s"
  shows "\<exists>ls. console (snd (reportBaseFees pf fh base t)) = console t @ ls \<and>
           averages ls = [toFixed 2 (js_div s (Num (of_nat (length base))))]"
proof -
  define t4 where "t4 =
    log (LatestBaseFee (toFixed 2 g))
      (log (RewardField (case reward fh of None \<Rightarrow> False | Some rs \<Rightarrow> rs \<noteq> []))
         (case pf of
            None \<Rightarrow> log Eip1559Supported t
          | Some f \<Rightarrow> log (ParameterFormat f) (log Eip1559Supported t)))"
  define t5 where "t5 = log (AverageBaseFee (toFixed 2 (js_div s (Num (of_nat (length base)))))) t4"
  have eq: "reportBaseFees pf fh base t = reportPercentiles fh t5"
    using assms by (simp add: reportBaseFees_def Let_def t5_def t4_def)
  have "\<exists>xs. console t4 = console t @ xs \<and> averages xs = []"
    by (cases pf) (simp_all add: t4_def averages_def)
  then obtain xs where xs: "console t4 = console t @ xs" "averages xs = []"
    by auto
  obtain ls where ls: "console (snd (reportPercentiles fh t5)) = console t5 @ ls"
    "averages ls = []"
    using reportPercentiles_console [of fh t5] by auto
  have "console t5 = console t @ xs @ [AverageBaseFee (toFixed 2 (js_div s (Num (of_nat (length base)))))]"
    by (simp add: t5_def xs)
  then have "console (snd (reportBaseFees pf fh base t)) =
      console t @ (xs @ [AverageBaseFee (toFixed 2 (js_div s (Num (of_nat (length base)))))] @ ls)"
    by (simp add: eq ls)
  moreover have "averages (xs @ [AverageBaseFee (toFixed 2 (js_div s (Num (of_nat (length base)))))] @ ls) =
      [toFixed 2 (js_div s (Num (of_nat (length base))))]"
    by (simp add: xs ls)
  ultimately show ?thesis
    by blast
qed

lemma finish_console:
  "\<exists>zs. console (snd (case p of (Inl e, t2) \<Rightarrow> (A e t2, t2)
                        | (Inr u, t2) \<Rightarrow> (B u t2, log (ResponseTime x) t2))) =
           console (snd p) @ zs \<and> averages zs = []"
  by (cases p; cases "fst p") (auto simp add: averages_def)

lemma catch_failed_console:
  "\<exists>zs. console (snd (catch_failed r)) = console (snd r) @ zs \<and> averages zs = []"
  by (cases r; cases "fst r") (auto simp add: catch_failed_def averages_def)

lemma feeHistory_report_console:
  assumes "result response = Some fh" and "baseFeePerGas fh = Some base" and "base \<noteq> []"
    and "toGwei (hexLiteral (Some (last base))) = Inr g"
    and "sumBaseFees base (Num 0) = Inr s"
  shows "\<exists>ls. console (snd (feeHistory_report pf response t)) = console t @ ls \<and>
           averages ls = [toFixed 2 (js_div s (Num (of_nat (length base))))]"
proof -
  define p where "p = reportBaseFees pf fh base (t\<lparr>results_eip1559 := Some True\<rparr>)"
  obtain xs where xs: "console (snd p) = console t @ xs"
    "averages xs = [toFixed 2 (js_div s (Num (of_nat (length base))))]"
    using reportBaseFees_console [OF assms(4,5), of pf fh "t\<lparr>results_eip1559 := Some True\<rparr>"]
    by (auto simp add: p_def)
  have "feeHistory_report pf response t =
      (case p of (Inl e, t2) \<Rightarrow> (Inl e, t2)
               | (Inr u, t2) \<Rightarrow> (Inr True, log (ResponseTime (responseTime response)) t2))"
    using assms(1-3) by (simp add: feeHistory_report_def Let_def p_def)
  then obtain zs where zs: "console (snd (feeHistory_report pf response t)) = console (snd p) @ zs"
    "averages zs = []"
    using finish_console
      [where p = p and A = "\<lambda>e t2. Inl e" and B = "\<lambda>u t2. Inr True"
        and x = "responseTime response"]
    by auto
  have "console (snd (feeHistory_report pf response t)) = console t @ (xs @ zs)"
    by (simp add: zs xs)
  moreover have "averages (xs @ zs) = [toFixed 2 (js_div s (Num (of_nat (length base))))]"
    by (simp add: zs xs)
  ultimately show ?thesis
    by blast
qed

lemma testFeeHistory_average:
  assumes "finalReply env t = Resolved response" and "error response = None"
    and "result response = Some fh" and "baseFeePerGas fh = Some base" and "base \<noteq> []"
    and "list_all2 (\<lambda>fee b. BigInt (hexLiteral (Some fee)) = Inr b) base bs"
  shows "averages (printed t (snd (testFeeHistory env t))) = [toFixed 2 (meanGwei bs)]"
proof -
  define s where "s = foldl (\<lambda>s b. js_add s (gweiOf b)) (Num 0) bs"
  define t0 where "t0 = afterStages env (log (Testing ''eth_feeHistory (EIP-1559 support)'') t)"
  define pf where "pf = Some (if fallback (rpc_feeHistory env (stage1 t)) then number else hex)"
  have sum: "sumBaseFees base (Num 0) = Inr s"
    using sumBaseFees_mean [OF assms(6), of "Num 0"] by (simp add: s_def)
  from assms(6) have len: "length bs = length base"
    by (simp add: list_all2_conv_all_nth)
  from assms(6) have "\<forall>i<length base. BigInt (hexLiteral (Some (base ! i))) = Inr (bs ! i)"
    by (simp add: list_all2_conv_all_nth)
  with assms(5) have "BigInt (hexLiteral (Some (last base))) = Inr (bs ! (length base - 1))"
    by (simp add: last_conv_nth)
  then have g: "toGwei (hexLiteral (Some (last base))) =
      Inr (gweiOf (bs ! (length base - 1)))"
    by (simp add: toGwei_def gweiOf_def)
  obtain ls where ls: "console (snd (feeHistory_report pf response t0)) = console t0 @ ls"
    "averages ls = [toFixed 2 (js_div s (Num (of_nat (length base))))]"
    using feeHistory_report_console [OF assms(3-5) g sum, of pf t0] by auto
  obtain zs where zs: "console (snd (testFeeHistory env t)) =
      console (snd (feeHistory_report pf response t0)) @ zs" "averages zs = []"
    using catch_failed_console [of "feeHistory_report pf response t0"]
    by (auto simp add: testFeeHistory_success [OF assms(1,2)] pf_def t0_def)
  have "console t0 = console t @ stagesPrinted env t"
    by (simp add: t0_def)
  then have "console (snd (testFeeHistory env t)) = console t @ (stagesPrinted env t @ ls @ zs)"
    by (simp add: zs ls)
  then have "printed t (snd (testFeeHistory env t)) = stagesPrinted env t @ ls @ zs"
    by (rule printed_eq)
  moreover have "averages (stagesPrinted env t) = []"
    by (simp add: stagesPrinted_def averages_def)
  ultimately show ?thesis
    by (simp add: ls zs s_def meanGwei_def len)
qed

subsection \<open>The balance probe\<close>

lemma balanceRequest_log [simp]: "balanceRequest a (log l t) k = balanceRequest a t k"
  by (simp add: balanceRequest_def)

lemma getBalance_loop_None:
  assumes "quantity (rpc_string env (balanceRequest a t 1)) = None"
  shows "\<exists>e. getBalance_loop env (a # rest) t =
     (Inl e, t\<lparr>requestId := requestId t + 1, wire := wire t @ [balanceRequest a t 1]\<rparr>)"
  using assms
  by (simp add: quantity_def makeRequest_eq balanceRequest_def BigInt_def
      split: reply.splits option.splits if_splits)

lemma getBalance_loop_Some:
  assumes "quantity (rpc_string env (balanceRequest a t 1)) = Some b"
  shows "\<exists>ls. getBalance_loop env (a # rest) t =
     getBalance_loop env rest
       (t\<lparr>requestId := requestId t + 1, wire := wire t @ [balanceRequest a t 1],
          console := console t @ ls\<rparr>)"
proof -
  from assms obtain response r where r:
    "rpc_string env (balanceRequest a t 1) = Resolved response" "error response = None"
    "result response = Some r" "r \<noteq> []" "StringToBigInt r = Some b"
    by (auto simp add: quantity_def split: reply.splits option.splits if_splits)
  then have "getBalance_loop env (a # rest) t =
     getBalance_loop env rest
       (t\<lparr>requestId := requestId t + 1, wire := wire t @ [balanceRequest a t 1],
          console := console t @
            [Address (take 10 a),
             Balance (toFixed 6 (js_div (Number_of_BigInt b) (Num 1000000000000000000))) b,
             ResponseTime (responseTime response)]\<rparr>)"
    by (simp add: makeRequest_eq balanceRequest_def BigInt_def log_def Let_def)
  then show ?thesis ..
qed

lemma balanceRequest_next:
  "balanceRequest a (t\<lparr>requestId := requestId t + 1, wire := w, console := c\<rparr>) 1 =
     balanceRequest a t 2"
  by (simp add: balanceRequest_def request_def)

lemma log_overwritten:
  "(log l t)\<lparr>requestId := a, wire := b, console := c\<rparr> =
     t\<lparr>requestId := a, wire := b, console := c\<rparr>"
  by (simp add: log_def)

lemma testGetBalance_eq:
  "written t (snd (testGetBalance env t)) =
     (if quantity (rpc_string env (balanceRequest zeroAddress t 1)) = None
      then [balanceRequest zeroAddress t 1]
      else [balanceRequest zeroAddress t 1, balanceRequest (TEST_ADDRESS env) t 2]) \<and>
   fst (testGetBalance env t) =
     (quantity (rpc_string env (balanceRequest zeroAddress t 1)) \<noteq> None \<and>
      quantity (rpc_string env (balanceRequest (TEST_ADDRESS env) t 2)) \<noteq> None)"
proof (cases "quantity (rpc_string env (balanceRequest zeroAddress t 1))")
  case None
  then obtain e where "getBalance_loop env (testAddresses env) (log (Testing ''eth_getBalance'') t) =
      (Inl e, (log (Testing ''eth_getBalance'') t)
         \<lparr>requestId := requestId t + 1, wire := wire t @ [balanceRequest zeroAddress t 1]\<rparr>)"
    using getBalance_loop_None
      [of env zeroAddress "log (Testing ''eth_getBalance'') t" "[TEST_ADDRESS env]"]
    by (auto simp add: testAddresses_def simp del: getBalance_loop.simps)
  with None show ?thesis
    by (simp add: testGetBalance_def catch_failed_def written_def del: getBalance_loop.simps)
next
  case (Some b)
  then obtain ls where 1:
    "getBalance_loop env (testAddresses env) (log (Testing ''eth_getBalance'') t) =
     getBalance_loop env [TEST_ADDRESS env]
       (t\<lparr>requestId := requestId t + 1, wire := wire t @ [balanceRequest zeroAddress t 1],
          console := console t @ Testing ''eth_getBalance'' # ls\<rparr>)"
    using getBalance_loop_Some
      [of env zeroAddress "log (Testing ''eth_getBalance'') t" b "[TEST_ADDRESS env]"]
    by (auto simp add: testAddresses_def log_overwritten simp del: getBalance_loop.simps)
  define t1 where "t1 =
    t\<lparr>requestId := requestId t + 1, wire := wire t @ [balanceRequest zeroAddress t 1],
      console := console t @ Testing ''eth_getBalance'' # ls\<rparr>"
  have next_request: "balanceRequest (TEST_ADDRESS env) t1 1 = balanceRequest (TEST_ADDRESS env) t 2"
    by (simp add: t1_def balanceRequest_def request_def)
  show ?thesis
  proof (cases "quantity (rpc_string env (balanceRequest (TEST_ADDRESS env) t 2))")
    case None
    then obtain e where "getBalance_loop env [TEST_ADDRESS env] t1 =
        (Inl e, t1\<lparr>requestId := requestId t1 + 1,
                    wire := wire t1 @ [balanceRequest (TEST_ADDRESS env) t 2]\<rparr>)"
      using getBalance_loop_None [of env "TEST_ADDRESS env" t1 "[]"] next_request
      by (auto simp del: getBalance_loop.simps)
    with None Some 1 show ?thesis
      by (simp add: testGetBalance_def catch_failed_def written_def t1_def
          del: getBalance_loop.simps)
  next
    case (Some b2)
    then obtain ls2 where "getBalance_loop env [TEST_ADDRESS env] t1 =
        (Inr True, t1\<lparr>requestId := requestId t1 + 1,
                       wire := wire t1 @ [balanceRequest (TEST_ADDRESS env) t 2],
                       console := console t1 @ ls2\<rparr>)"
      using getBalance_loop_Some [of env "TEST_ADDRESS env" t1 b2 "[]"] next_request
      by (auto simp del: getBalance_loop.simps(2))
    with Some \<open>quantity (rpc_string env (balanceRequest zeroAddress t 1)) = Some b\<close> 1
    show ?thesis
      by (simp add: testGetBalance_def catch_failed_def written_def t1_def
          del: getBalance_loop.simps)
  qed
qed

lemma quantity_answered: "\<not> answered reply \<Longrightarrow> quantity reply = None"
  by (auto simp add: answered_def quantity_def split: reply.splits option.splits)

subsection \<open>The block-activity probe\<close>

lemma js_gt_between:
  assumes "a \<noteq> NaN" and "b \<noteq> NaN" and "c \<noteq> NaN" and "js_gt c a"
  shows "js_gt b a \<or> js_gt c b"
  using assms by (cases a; cases b; cases c) auto

lemma isIncrementing_adjacent:
  "isIncrementing bs \<longleftrightarrow> (\<exists>i. 0 < i \<and> i < length bs \<and> js_gt (bs ! i) (bs ! (i - 1)))"
  by (auto simp add: isIncrementing_def list_ex_iff)

lemma no_rise:
  assumes "NaN \<notin> set bs"
    and "\<forall>i. 0 < i \<and> i < length bs \<longrightarrow> \<not> js_gt (bs ! i) (bs ! (i - 1))"
  shows "i + Suc d < length bs \<Longrightarrow> \<not> js_gt (bs ! (i + Suc d)) (bs ! i)"
proof (induction d)
  case 0
  with assms(2) [rule_format, of "Suc i"] show ?case by simp
next
  case (Suc d)
  then have IH: "\<not> js_gt (bs ! (i + Suc d)) (bs ! i)"
    by simp
  from Suc.prems assms(2) [rule_format, of "i + Suc (Suc d)"]
  have step: "\<not> js_gt (bs ! (i + Suc (Suc d))) (bs ! (i + Suc d))"
    by simp
  from Suc.prems assms(1) have "bs ! i \<noteq> NaN" "bs ! (i + Suc d) \<noteq> NaN"
    "bs ! (i + Suc (Suc d)) \<noteq> NaN"
    by (metis add_lessD1 nth_mem, metis Suc_lessD add_Suc_right nth_mem, metis nth_mem)
  with IH step show ?case
    using js_gt_between by blast
qed

lemma isIncrementing_any_pair:
  assumes "NaN \<notin> set bs"
  shows "isIncrementing bs \<longleftrightarrow> (\<exists>i j. i < j \<and> j < length bs \<and> js_gt (bs ! j) (bs ! i))"
proof
  assume "isIncrementing bs"
  then obtain i where "0 < i" "i < length bs" "js_gt (bs ! i) (bs ! (i - 1))"
    by (auto simp add: isIncrementing_adjacent)
  then have "i - 1 < i \<and> i < length bs \<and> js_gt (bs ! i) (bs ! (i - 1))"
    by simp
  then show "\<exists>i j. i < j \<and> j < length bs \<and> js_gt (bs ! j) (bs ! i)"
    by blast
next
  assume "\<exists>i j. i < j \<and> j < length bs \<and> js_gt (bs ! j) (bs ! i)"
  then obtain i j where ij: "i < j" "j < length bs" "js_gt (bs ! j) (bs ! i)"
    by blast
  from ij(1) obtain d where d: "j = i + Suc d"
    by (auto dest: less_imp_Suc_add)
  show "isIncrementing bs"
  proof (rule ccontr)
    assume "\<not> isIncrementing bs"
    then have "\<forall>i. 0 < i \<and> i < length bs \<longrightarrow> \<not> js_gt (bs ! i) (bs ! (i - 1))"
      by (auto simp add: isIncrementing_adjacent)
    from no_rise [OF assms this, of i d] ij d show False
      by simp
  qed
qed

lemma samplesFrom_Suc:
  "samplesFrom env t (Suc n) =
     sample (rpc_string env (request ''eth_blockNumber'' [] t 1)) #
     samplesFrom env (t\<lparr>requestId := requestId t + 1, wire := w\<rparr>) n"
proof -
  have "[1 ..< Suc (Suc n)] = 1 # map Suc [1 ..< Suc n]"
    by (simp add: upt_conv_Cons map_Suc_upt del: upt_Suc)
  then show ?thesis
    by (simp add: samplesFrom_def request_def comp_def del: upt_Suc)
qed

lemma blockNumber_loop_samples:
  "samplesFrom env t n = map Some bs \<Longrightarrow>
   \<exists>rs h' t'. blockNumber_loop env n results h t = (Inr (results @ rs, h'), t') \<and>
     map blockNumber rs = bs \<and> console t' = console t"
proof (induction n arbitrary: bs results h t)
  case 0
  then show ?case by (simp add: samplesFrom_def)
next
  case (Suc n)
  define t1 where "t1 = t\<lparr>requestId := requestId t + 1,
    wire := wire t @ [request ''eth_blockNumber'' [] t 1]\<rparr>"
  from Suc.prems obtain b bs' where bs: "bs = b # bs'"
    "sample (rpc_string env (request ''eth_blockNumber'' [] t 1)) = Some b"
    "samplesFrom env t1 n = map Some bs'"
    by (auto simp add: samplesFrom_Suc [where w = "wire t @ [request ''eth_blockNumber'' [] t 1]"]
        t1_def Cons_eq_map_conv)
  from bs(2) obtain response r where r:
    "rpc_string env (request ''eth_blockNumber'' [] t 1) = Resolved response"
    "error response = None" "result response = Some r" "r \<noteq> []" "parseInt r 16 = b"
    by (auto simp add: sample_def split: reply.splits option.splits if_splits)
  define r1 where "r1 = \<lparr>blockNumber = b, responseTime' = responseTime response,
    httpVersion' = httpVersion response\<rparr>"
  from r have step: "blockNumber_loop env (Suc n) results h t =
      blockNumber_loop env n (results @ [r1]) (h \<or> httpVersion response = ''2.0'') t1"
    by (simp add: makeRequest_eq t1_def r1_def)
  from Suc.IH [OF bs(3), of "results @ [r1]" "h \<or> httpVersion response = ''2.0''"]
  obtain rs h' t' where IH:
    "blockNumber_loop env n (results @ [r1]) (h \<or> httpVersion response = ''2.0'') t1 =
       (Inr ((results @ [r1]) @ rs, h'), t')"
    "map blockNumber rs = bs'" "console t' = console t1"
    by blast
  have "blockNumber_loop env (Suc n) results h t = (Inr (results @ (r1 # rs), h'), t')"
    using IH(1) by (simp add: step del: blockNumber_loop.simps)
  moreover have "map blockNumber (r1 # rs) = bs"
    by (simp add: IH(2) bs(1) r1_def)
  moreover have "console t' = console t"
    by (simp add: IH(3) t1_def)
  ultimately show ?case
    by blast
qed

lemma testBlockNumber_samples:
  assumes "samples env t = map Some bs"
  shows "length bs = 5 \<and> fst (testBlockNumber env t) \<and>
         liveness t (snd (testBlockNumber env t)) = isIncrementing bs"
proof -
  define t0 where "t0 = log (Testing ''eth_blockNumber (multiple calls)'') t"
  have "samplesFrom env t0 numCalls = map Some bs"
    using assms by (simp add: samples_def samplesFrom_def t0_def)
  from blockNumber_loop_samples [OF this, of "[]" False]
  obtain rs h' t' where loop: "blockNumber_loop env numCalls [] False t0 = (Inr (rs, h'), t')"
    "map blockNumber rs = bs" "console t' = console t0"
    by auto
  have "length (samples env t) = 5"
    by (simp add: samples_def samplesFrom_def numCalls_def)
  with assms have len: "length bs = 5"
    by simp
  with loop(2) have ne: "rs \<noteq> []"
    by auto
  have c0: "console t0 = console t @ [Testing ''eth_blockNumber (multiple calls)'']"
    by (simp add: t0_def)
  have "\<exists>ls. console (snd (testBlockNumber env t)) =
      console t @ ls @ (if isIncrementing bs then [NetworkActive] else []) \<and>
      NetworkActive \<notin> set ls \<and> fst (testBlockNumber env t)"
    using loop ne c0
    by (simp add: testBlockNumber_def testBlockNumber_body_def catch_failed_def Let_def
        flip: t0_def)
  then obtain ls where ls: "console (snd (testBlockNumber env t)) =
      console t @ ls @ (if isIncrementing bs then [NetworkActive] else [])"
    "NetworkActive \<notin> set ls" "fst (testBlockNumber env t)"
    by blast
  from ls(1) have "printed t (snd (testBlockNumber env t)) =
      ls @ (if isIncrementing bs then [NetworkActive] else [])"
    by (rule printed_eq)
  with ls(2,3) len show ?thesis
    by (simp add: liveness_def)
qed

section \<open>The properties\<close>

text \<open>
  C9. The chain-identity probe passes exactly when the \<open>eth_chainId\<close> call succeeds
  with a result. When it does, the probe returns \<open>true\<close> whatever the expected chain
  id and whether or not the id has a name: an unknown id prints as \<open>ChainId c None\<close>
  (\<open>Unknown chain\<close>), and a mismatch only adds the warning line.
\<close>

theorem testChainId_outcome:
  "fst (testChainId env t) = answered (rpc_string env (request ''eth_chainId'' [] t 1)) \<and>
   (\<forall>response r.
      rpc_string env (request ''eth_chainId'' [] t 1) = Resolved response \<and>
      error response = None \<and> result response = Some r \<and> r \<noteq> [] \<longrightarrow>
      testChainId env t =
        (True,
         t\<lparr>requestId := requestId t + 1,
           wire := wire t @ [request ''eth_chainId'' [] t 1],
           results_chainId := Some (parseInt r 16),
           console := console t @
             [Testing ''eth_chainId'', ChainId (parseInt r 16) (chainName (parseInt r 16)),
              ResponseTime (responseTime response)] @
             warning (expectedChainId t) (parseInt r 16)\<rparr>))"
  using testChainId_fst testChainId_pass by blast

theorem testChainId_outcome_witness:
  "fst (testChainId devnet fresh) \<and>
   printed fresh (snd (testChainId devnet fresh)) =
     [Testing ''eth_chainId'', ChainId (Num 1337) None, ResponseTime 12,
      ChainIdWarning (Num 1) (Num 1337)]"
proof -
  have reply: "rpc_string devnet (request ''eth_chainId'' [] fresh 1) = success ''0x539''"
    by (simp add: devnet_def node_def)
  have id: "parseInt ''0x539'' 16 = Num 1337"
    by code_simp
  have unknown: "chainName (Num 1337) = None"
    by code_simp
  have expected: "expectedChainId fresh = Some (Num 1)"
    by (simp add: fresh_def new_RPCTester_def)
  from testChainId_outcome [of devnet fresh] reply
  have "testChainId devnet fresh =
     (True,
      fresh\<lparr>requestId := requestId fresh + 1,
            wire := wire fresh @ [request ''eth_chainId'' [] fresh 1],
            results_chainId := Some (parseInt ''0x539'' 16),
            console := console fresh @
              [Testing ''eth_chainId'',
               ChainId (parseInt ''0x539'' 16) (chainName (parseInt ''0x539'' 16)),
               ResponseTime 12] @
              warning (expectedChainId fresh) (parseInt ''0x539'' 16)\<rparr>)"
    by (simp add: success_def)
  then show ?thesis
    by (simp add: id unknown expected warning_def js_neq_def)
qed

text \<open>
  C1. The fee-history probe writes the Stage-2 request, with the block count as the
  number 10, exactly when Stage 1 resolved with an error whose message contains one of
  the six substrings; otherwise the Stage-1 request is the only one written. A message
  containing \<open>invalid argument\<close> contains \<open>invalid\<close>, so it leads to Stage 2.
\<close>

theorem testFeeHistory_fallback:
  "written t (snd (testFeeHistory env t)) =
     (if fallback (rpc_feeHistory env (stage1 t)) then [stage1 t, stage2 t] else [stage1 t]) \<and>
   params (stage1 t) = [PStr ''0xa'', PStr ''latest'', PList [PNum 25, PNum 50, PNum 75]] \<and>
   params (stage2 t) = [PNum 10, PStr ''latest'', PList [PNum 25, PNum 50, PNum 75]] \<and>
   fallback reply =
     (\<exists>response e. reply = Resolved response \<and> error response = Some e \<and>
        (str_includes (message e) ''unmarshal'' \<or> str_includes (message e) ''destruct'' \<or>
         str_includes (message e) ''parse'' \<or> str_includes (message e) ''invalid'' \<or>
         str_includes (message e) ''type'' \<or> str_includes (message e) ''expected'')) \<and>
   (str_includes msg ''invalid argument'' \<longrightarrow> needsFallback msg)"
proof -
  have "written t (snd (testFeeHistory env t)) = stagesWritten env t"
    by (simp add: written_def testFeeHistory_wire)
  moreover have "str_includes ''invalid argument'' ''invalid''"
    by code_simp
  then have "str_includes msg ''invalid argument'' \<longrightarrow> needsFallback msg"
    using str_includes_trans [of msg "''invalid argument''" "''invalid''"]
    by (auto simp add: needsFallback_def)
  moreover have "fallback reply =
     (\<exists>response e. reply = Resolved response \<and> error response = Some e \<and>
        needsFallback (message e))"
    by (auto simp add: fallback_def split: reply.splits option.splits)
  ultimately show ?thesis
    by (simp add: stagesWritten_def stage1_def stage2_def request_def needsFallback_def)
qed

theorem testFeeHistory_fallback_witness:
  "written fresh (snd (testFeeHistory numeric fresh)) = [stage1 fresh, stage2 fresh] \<and>
   written fresh (snd (testFeeHistory devnet fresh)) = [stage1 fresh]"
proof -
  have "needsFallback ''invalid argument 0: json: cannot unmarshal string''"
    using testFeeHistory_fallback
      [of fresh numeric undefined "''invalid argument 0: json: cannot unmarshal string''"]
    by (simp add: str_includes_def)
  then have 1: "fallback (rpc_feeHistory numeric (stage1 fresh))"
    by (simp add: numeric_def node_def stage1_def request_def fallback_def failure_def)
  have "\<not> needsFallback ''method not found''"
    by code_simp
  then have 2: "\<not> fallback (rpc_feeHistory devnet (stage1 fresh))"
    by (simp add: devnet_def node_def fallback_def failure_def)
  from 1 2 testFeeHistory_fallback [of fresh numeric] testFeeHistory_fallback [of fresh devnet]
  show ?thesis
    by simp
qed

text \<open>
  C2. When the reply that the probe goes on with (Stage 1's, or Stage 2's after a
  fallback) carries an error whose message contains \<open>not found\<close> or
  \<open>not supported\<close>, the probe sets \<open>eip1559\<close> to false, prints that line last,
  writes no further request and returns \<open>true\<close>; with any other error it returns
  \<open>false\<close>.
\<close>

theorem testFeeHistory_unsupported:
  assumes "finalReply env t = Resolved response" and "error response = Some e"
  shows "unsupported (message e) =
           (str_includes (message e) ''not found'' \<or> str_includes (message e) ''not supported'') \<and>
         (unsupported (message e) \<longrightarrow>
            fst (testFeeHistory env t) \<and>
            results_eip1559 (snd (testFeeHistory env t)) = Some False \<and>
            printed t (snd (testFeeHistory env t)) = stagesPrinted env t @ [Eip1559NotSupported] \<and>
            written t (snd (testFeeHistory env t)) = stagesWritten env t) \<and>
         (\<not> unsupported (message e) \<longrightarrow> \<not> fst (testFeeHistory env t))"
  using testFeeHistory_error [OF assms]
  by (simp add: unsupported_def printed_def written_def)

theorem testFeeHistory_unsupported_witness:
  "fst (testFeeHistory devnet fresh) \<and>
   results_eip1559 (snd (testFeeHistory devnet fresh)) = Some False \<and>
   printed fresh (snd (testFeeHistory devnet fresh)) =
     [Testing ''eth_feeHistory (EIP-1559 support)'', Eip1559NotSupported] \<and>
   written fresh (snd (testFeeHistory devnet fresh)) = [stage1 fresh]"
proof -
  have "\<not> needsFallback ''method not found''"
    by code_simp
  then have no: "\<not> fallback (rpc_feeHistory devnet (stage1 fresh))"
    by (simp add: devnet_def node_def fallback_def failure_def)
  then have final: "finalReply devnet fresh = failure ''method not found''"
    by (simp add: finalReply_def devnet_def node_def)
  have un: "unsupported ''method not found''"
    by code_simp
  from testFeeHistory_unsupported [of devnet fresh _ "\<lparr>code = - 32601, message = ''method not found''\<rparr>"]
    final un no
  show ?thesis
    by (simp add: failure_def stagesPrinted_def stagesWritten_def)
qed

text \<open>
  C10. When the call succeeds with base fees and the latest block of \<open>reward\<close> has one
  or two entries, index 2 is past the end, its conversion raises \<open>TypeError\<close>, and the
  probe returns \<open>false\<close> although it has set \<open>eip1559\<close> to true.
\<close>

theorem testFeeHistory_short_rewards:
  assumes "finalReply env t = Resolved response" and "error response = None"
    and "result response = Some fh"
    and "baseFeePerGas fh = Some base" and "base \<noteq> []"
    and "reward fh = Some rewards" and "rewards \<noteq> []"
    and "last rewards \<noteq> []" and "length (last rewards) < 3"
  shows "\<not> fst (testFeeHistory env t) \<and>
         results_eip1559 (snd (testFeeHistory env t)) = Some True \<and>
         elementAt (last rewards) 2 = None \<and>
         toGwei (hexLiteral (elementAt (last rewards) 2)) = Inl TypeError"
proof -
  have "\<exists>e. fst (reportBaseFees pf fh base s) = Inl e" for pf s
    using reportBaseFees_short assms(6-9) by blast
  then have "fst (feeHistory_report pf response s) \<noteq> Inr True" for pf s
    using feeHistory_report_fst [OF assms(3)] assms(4,5) by (metis Inl_Inr_False)
  then have "\<not> fst (testFeeHistory env t)"
    by (simp add: testFeeHistory_success [OF assms(1,2)] catch_failed_fst)
  moreover have "results_eip1559 (snd (testFeeHistory env t)) = Some True"
    using assms(4,5)
    by (simp add: testFeeHistory_success [OF assms(1,2)] feeHistory_report_eip [OF assms(3)]
        hasBaseFees_def)
  ultimately show ?thesis
    using assms(9) by (simp add: elementAt_def)
qed

theorem testFeeHistory_short_rewards_witness:
  "\<not> fst (testFeeHistory short fresh) \<and>
   results_eip1559 (snd (testFeeHistory short fresh)) = Some True"
proof -
  have "\<not> fallback (rpc_feeHistory short (stage1 fresh))"
    by (simp add: short_def node_def fallback_def success_def)
  then have final: "finalReply short fresh =
      success (history [Str ''0x3b9aca00''] (Some [[Str ''0x1'', Str ''0x2'']]))"
    by (simp add: finalReply_def short_def node_def)
  from testFeeHistory_short_rewards
    [of short fresh _ "history [Str ''0x3b9aca00''] (Some [[Str ''0x1'', Str ''0x2'']])"
      "[Str ''0x3b9aca00'']" "[[Str ''0x1'', Str ''0x2'']]"] final
  show ?thesis
    by (simp add: success_def history_def)
qed

text \<open>
  C6, as the script has it. On a call that succeeds with a result, \<open>eip1559\<close> is set
  to true exactly when \<open>baseFeePerGas\<close> is present and not empty. The probe returns
  \<open>true\<close> when \<open>baseFeePerGas\<close> is absent or empty. When it is present and not
  empty, the probe returns \<open>false\<close> if \<open>BigInt\<close> rejects one of the base fees;
  if it accepts them all, and the latest block of \<open>reward\<close> does not have just one
  or two entries, the probe returns \<open>true\<close> exactly when \<open>reward\<close> is absent,
  empty, ends in an empty block, or \<open>BigInt\<close> accepts the first three entries of its
  latest block.
\<close>

theorem testFeeHistory_classifies:
  assumes "finalReply env t = Resolved response" and "error response = None"
    and "result response = Some fh"
  shows "results_eip1559 (snd (testFeeHistory env t)) = Some (hasBaseFees fh) \<and>
         hasBaseFees fh = (\<exists>base. baseFeePerGas fh = Some base \<and> base \<noteq> []) \<and>
         (\<not> hasBaseFees fh \<longrightarrow> fst (testFeeHistory env t)) \<and>
         (\<forall>base. baseFeePerGas fh = Some base \<and> base \<noteq> [] \<and> \<not> list_all wellFormed base \<longrightarrow>
                 \<not> fst (testFeeHistory env t)) \<and>
         (\<forall>base. baseFeePerGas fh = Some base \<and> base \<noteq> [] \<and> list_all wellFormed base \<and>
                 \<not> shortRewards fh \<longrightarrow>
                 fst (testFeeHistory env t) = percentilesReadable fh)"
proof -
  have 1: "results_eip1559 (snd (testFeeHistory env t)) = Some (hasBaseFees fh)"
    by (simp add: testFeeHistory_success [OF assms(1,2)] feeHistory_report_eip [OF assms(3)])
  have 2: "hasBaseFees fh = (\<exists>base. baseFeePerGas fh = Some base \<and> base \<noteq> [])"
    by (simp add: hasBaseFees_def split: option.splits)
  have 3: "fst (testFeeHistory env t)" if "\<not> hasBaseFees fh"
    using that 2
    by (auto simp add: testFeeHistory_success [OF assms(1,2)] catch_failed_fst
        feeHistory_report_fst [OF assms(3)])
  have 4: "\<not> fst (testFeeHistory env t)"
    if "baseFeePerGas fh = Some base" "base \<noteq> []" "\<not> list_all wellFormed base" for base
  proof -
    have "\<exists>e. fst (reportBaseFees pf fh base s) = Inl e" for pf s
      using that(3) by (rule reportBaseFees_malformed)
    then have "fst (feeHistory_report pf response s) \<noteq> Inr True" for pf s
      using feeHistory_report_fst [OF assms(3)] that(1,2) by (metis Inl_Inr_False)
    then show ?thesis
      by (simp add: testFeeHistory_success [OF assms(1,2)] catch_failed_fst)
  qed
  have 5: "fst (testFeeHistory env t)"
    if "baseFeePerGas fh = Some base" "list_all wellFormed base" "percentilesReadable fh" for base
    using that reportBaseFees_readable [of base fh]
    by (auto simp add: testFeeHistory_success [OF assms(1,2)] catch_failed_fst
        feeHistory_report_fst [OF assms(3)])
  have 6: "\<not> fst (testFeeHistory env t)"
    if "baseFeePerGas fh = Some base" "base \<noteq> []" "\<not> shortRewards fh"
      "\<not> percentilesReadable fh" for base
  proof -
    have "\<exists>e. fst (reportBaseFees pf fh base s) = Inl e" for pf s
      using that(3,4) by (rule reportBaseFees_unreadable)
    then have "fst (feeHistory_report pf response s) \<noteq> Inr True" for pf s
      using feeHistory_report_fst [OF assms(3)] that(1,2) by (metis Inl_Inr_False)
    then show ?thesis
      by (simp add: testFeeHistory_success [OF assms(1,2)] catch_failed_fst)
  qed
  from 1 2 3 4 5 6 show ?thesis
    by blast
qed

theorem testFeeHistory_classifies_witness:
  "results_eip1559 (snd (testFeeHistory mixed fresh)) = Some True \<and>
   fst (testFeeHistory mixed fresh)"
proof -
  have "\<not> fallback (rpc_feeHistory mixed (stage1 fresh))"
    by (simp add: mixed_def node_def fallback_def success_def)
  then have final: "finalReply mixed fresh =
      success (history [Str ''0x3b9aca00'', Number (Num 1000000000)]
                 (Some [[Str ''0x1'', Number (Num 2), Str ''0x3'']]))"
    by (simp add: finalReply_def mixed_def node_def)
  have wf: "list_all wellFormed [Str ''0x3b9aca00'', Number (Num 1000000000)]"
    by code_simp
  have "list_all wellFormed [Str ''0x1'', Number (Num 2), Str ''0x3'']"
    by code_simp
  then have pr: "percentilesReadable
      (history [Str ''0x3b9aca00'', Number (Num 1000000000)]
         (Some [[Str ''0x1'', Number (Num 2), Str ''0x3'']]))"
    by (simp add: percentilesReadable_def history_def)
  have ns: "\<not> shortRewards
      (history [Str ''0x3b9aca00'', Number (Num 1000000000)]
         (Some [[Str ''0x1'', Number (Num 2), Str ''0x3'']]))"
    by (simp add: shortRewards_def history_def)
  from testFeeHistory_classifies
    [of mixed fresh _ "history [Str ''0x3b9aca00'', Number (Num 1000000000)]
                         (Some [[Str ''0x1'', Number (Num 2), Str ''0x3'']])"] final wf pr ns
  show ?thesis
    by (simp add: success_def history_def hasBaseFees_def)
qed

text \<open>The claim C6 as written fails: this call succeeds with a base fee that is no
  number, and the probe returns \<open>false\<close>.\<close>

theorem testFeeHistory_classifies_counterexample:
  "finalReply garbled fresh = success (history [Str ''1 gwei''] None) \<and>
   \<not> fst (testFeeHistory garbled fresh)"
proof -
  have "\<not> fallback (rpc_feeHistory garbled (stage1 fresh))"
    by (simp add: garbled_def node_def fallback_def success_def)
  then have final: "finalReply garbled fresh = success (history [Str ''1 gwei''] None)"
    by (simp add: finalReply_def garbled_def node_def)
  have "toGwei (hexLiteral (Some (Str ''1 gwei''))) = Inl SyntaxError"
    by code_simp
  then have "fst (reportBaseFees pf (history [Str ''1 gwei''] None) [Str ''1 gwei''] s) =
      Inl SyntaxError" for pf s
    by (simp add: reportBaseFees_def)
  then have "fst (feeHistory_report pf
      \<lparr>result = Some (history [Str ''1 gwei''] None), error = None, responseTime = 12,
        httpVersion = ''1.1'', statusCode = Some 200\<rparr> s) \<noteq> Inr True" for pf s
    by (simp add: feeHistory_report_fst history_def)
  with final show ?thesis
    by (simp add: testFeeHistory_success [of garbled fresh] success_def catch_failed_fst)
qed

text \<open>
  C8. Every element of \<open>baseFeePerGas\<close> is turned into an integer on its own: a
  \<open>0x\<close> string into the value of its digits, a number that is a natural number into
  itself, and the two encodings of one value into the same integer. The average the
  probe prints is computed from these integers alone (\<open>meanGwei\<close>, in binary64),
  whatever mix of encodings the array holds; for \<open>["0x3b9aca00", 1000000000]\<close> it
  prints \<open>1.00\<close>.
\<close>

theorem testFeeHistory_mixed_encodings:
  assumes "finalReply env t = Resolved response" and "error response = None"
    and "result response = Some fh" and "baseFeePerGas fh = Some base" and "base \<noteq> []"
  shows "(ds \<noteq> [] \<and> list_all (isDigit 16) ds \<longrightarrow>
            BigInt (hexLiteral (Some (Str (''0x'' @ ds)))) = Inr (digitsValue 16 ds)) \<and>
         (0 \<le> n \<longrightarrow>
            BigInt (hexLiteral (Some (Number (Num (of_int n))))) = Inr n \<and>
            BigInt (hexLiteral (Some (Str (''0x'' @ toHex n)))) = Inr n) \<and>
         (list_all2 (\<lambda>fee b. BigInt (hexLiteral (Some fee)) = Inr b) base bs \<longrightarrow>
            averages (printed t (snd (testFeeHistory env t))) = [toFixed 2 (meanGwei bs)]) \<and>
         (base = [Str ''0x3b9aca00'', Number (Num 1000000000)] \<longrightarrow>
            averages (printed t (snd (testFeeHistory env t))) = [Fixed False 100])"
proof -
  have 1: "BigInt (hexLiteral (Some (Str (''0x'' @ ds)))) = Inr (digitsValue 16 ds)"
    if "ds \<noteq> []" "list_all (isDigit 16) ds"
    using that by (rule BigInt_Str)
  have 2: "BigInt (hexLiteral (Some (Number (Num (of_int n))))) = Inr n"
    and 3: "BigInt (hexLiteral (Some (Str (''0x'' @ toHex n)))) = Inr n" if "0 \<le> n"
    using that BigInt_Number [of n] BigInt_Str [of "toHex n"] toHex_digits [of n]
    by simp_all
  have 4: "averages (printed t (snd (testFeeHistory env t))) = [toFixed 2 (meanGwei bs)]"
    if "list_all2 (\<lambda>fee b. BigInt (hexLiteral (Some fee)) = Inr b) base bs"
    using assms that by (rule testFeeHistory_average)
  have 5: "averages (printed t (snd (testFeeHistory env t))) = [Fixed False 100]"
    if base: "base = [Str ''0x3b9aca00'', Number (Num 1000000000)]"
  proof -
    have "BigInt (hexLiteral (Some (Str ''0x3b9aca00''))) = Inr 1000000000"
      by code_simp
    moreover have "BigInt (hexLiteral (Some (Number (Num 1000000000)))) = Inr 1000000000"
      using BigInt_Number [of 1000000000] by simp
    ultimately have "list_all2 (\<lambda>fee b. BigInt (hexLiteral (Some fee)) = Inr b) base
        [1000000000, 1000000000]"
      by (simp add: base)
    moreover have "toFixed 2 (meanGwei [1000000000, 1000000000]) = Fixed False 100"
      by code_simp
    ultimately show ?thesis
      using testFeeHistory_average [OF assms, of "[1000000000, 1000000000]"]
      by simp
  qed
  from 1 2 3 4 5 show ?thesis
    by blast
qed

theorem testFeeHistory_mixed_encodings_witness:
  "averages (printed fresh (snd (testFeeHistory mixed fresh))) = [Fixed False 100] \<and>
   BigInt (hexLiteral (Some (Number (Num 1000000000)))) = Inr 1000000000 \<and>
   BigInt (hexLiteral (Some (Str (''0x'' @ toHex 1000000000)))) = Inr 1000000000"
proof -
  have "\<not> fallback (rpc_feeHistory mixed (stage1 fresh))"
    by (simp add: mixed_def node_def fallback_def success_def)
  then have final: "finalReply mixed fresh =
      success (history [Str ''0x3b9aca00'', Number (Num 1000000000)]
                 (Some [[Str ''0x1'', Number (Num 2), Str ''0x3'']]))"
    by (simp add: finalReply_def mixed_def node_def)
  from testFeeHistory_mixed_encodings
    [of mixed fresh _ "history [Str ''0x3b9aca00'', Number (Num 1000000000)]
                         (Some [[Str ''0x1'', Number (Num 2), Str ''0x3'']])"
      "[Str ''0x3b9aca00'', Number (Num 1000000000)]" _ 1000000000] final
  show ?thesis
    by (simp add: success_def history_def)
qed

text \<open>The rounding shows in the printed mean: two base fees of 1005000000 wei print as
  \<open>1.00\<close>, since \<open>1005000000 / 1e9\<close> in binary64 lies below \<open>1.005\<close>.\<close>

lemma meanGwei_rounds: "toFixed 2 (meanGwei [1005000000, 1005000000]) = Fixed False 100"
  by code_simp

text \<open>
  C3, as the script has it. The balance probe asks for the balance of the zero address
  at \<open>latest\<close> and then, when that query yields a balance, for the balance of
  \<open>TEST_ADDRESS\<close> at \<open>latest\<close>, whether an address was configured or
  \<open>TEST_ADDRESS\<close> is the empty string. It returns \<open>true\<close> exactly when both queries
  yield a balance; a query that fails, among them one with an error or without a
  result, ends the probe with \<open>false\<close> and no further request.
\<close>

theorem testGetBalance_queries:
  "written t (snd (testGetBalance env t)) =
     (if quantity (rpc_string env (balanceRequest zeroAddress t 1)) = None
      then [balanceRequest zeroAddress t 1]
      else [balanceRequest zeroAddress t 1, balanceRequest (TEST_ADDRESS env) t 2]) \<and>
   fst (testGetBalance env t) =
     (quantity (rpc_string env (balanceRequest zeroAddress t 1)) \<noteq> None \<and>
      quantity (rpc_string env (balanceRequest (TEST_ADDRESS env) t 2)) \<noteq> None) \<and>
   (\<not> answered reply \<longrightarrow> quantity reply = None) \<and>
   method' (balanceRequest address t k) = ''eth_getBalance'' \<and>
   params (balanceRequest address t k) = [PStr address, PStr ''latest''] \<and>
   zeroAddress = ''0x0000000000000000000000000000000000000000''"
  using testGetBalance_eq [of t env] quantity_answered [of reply]
  by (simp add: balanceRequest_def request_def zeroAddress_def)

theorem testGetBalance_queries_witness:
  "written fresh (snd (testGetBalance devnet fresh)) =
     [balanceRequest zeroAddress fresh 1, balanceRequest '''' fresh 2] \<and>
   fst (testGetBalance devnet fresh)"
proof -
  have "quantity (success ''0x539'') = Some 1337"
    by code_simp
  then have "quantity (rpc_string devnet req) = Some 1337" for req
    by (simp add: devnet_def node_def)
  moreover have "TEST_ADDRESS devnet = ''''"
    by (simp add: devnet_def node_def)
  ultimately show ?thesis
    using testGetBalance_queries [of fresh devnet]
    by simp
qed

text \<open>The claim C3 as written fails: with no address configured the probe still sends a
  second query, for the empty address, and this endpoint's error on it fails the
  probe.\<close>

theorem testGetBalance_queries_counterexample:
  "TEST_ADDRESS strict = '''' \<and>
   written fresh (snd (testGetBalance strict fresh)) =
     [balanceRequest zeroAddress fresh 1, balanceRequest '''' fresh 2] \<and>
   \<not> fst (testGetBalance strict fresh)"
proof -
  have 0: "TEST_ADDRESS strict = ''''"
    by (simp add: strict_def node_def)
  have "quantity (success ''0x0'') = Some 0"
    by code_simp
  then have 1: "quantity (rpc_string strict (balanceRequest zeroAddress fresh 1)) = Some 0"
    by (simp add: strict_def node_def balanceRequest_def request_def zeroAddress_def)
  have 2: "quantity (rpc_string strict (balanceRequest '''' fresh 2)) = None"
    by (simp add: strict_def node_def balanceRequest_def request_def quantity_def failure_def)
  from 0 1 2 testGetBalance_eq [of fresh strict] show ?thesis
    by simp
qed

text \<open>
  C4, as the script has it. When the five calls of the block-activity probe succeed and
  every sample is a number (no sample is \<open>NaN\<close>), the probe reports the network as
  active exactly when some later sample is greater than some earlier one: the test on
  neighbours agrees with the test on any pair. For the samples 100, 100, 101, 101, 102
  it reports activity, for five samples of 100 it does not.
\<close>

theorem testBlockNumber_liveness:
  assumes "samples env t = map Some bs" and "NaN \<notin> set bs"
  shows "length bs = 5 \<and>
         liveness t (snd (testBlockNumber env t)) =
           (\<exists>i j. i < j \<and> j < 5 \<and> js_gt (bs ! j) (bs ! i)) \<and>
         (bs = [Num 100, Num 100, Num 101, Num 101, Num 102] \<longrightarrow>
            liveness t (snd (testBlockNumber env t))) \<and>
         (bs = [Num 100, Num 100, Num 100, Num 100, Num 100] \<longrightarrow>
            \<not> liveness t (snd (testBlockNumber env t)))"
proof -
  from testBlockNumber_samples [OF assms(1)]
  have len: "length bs = 5"
    and live: "liveness t (snd (testBlockNumber env t)) = isIncrementing bs"
    by simp_all
  have any: "isIncrementing bs = (\<exists>i j. i < j \<and> j < 5 \<and> js_gt (bs ! j) (bs ! i))"
    using isIncrementing_any_pair [OF assms(2)] len by simp
  have rising: "isIncrementing [Num 100, Num 100, Num 101, Num 101, Num 102]"
    by code_simp
  have flat: "\<not> isIncrementing [Num 100, Num 100, Num 100, Num 100, Num 100]"
    by code_simp
  have 2: "liveness t (snd (testBlockNumber env t)) =
      (\<exists>i j. i < j \<and> j < 5 \<and> js_gt (bs ! j) (bs ! i))"
    by (simp only: live any)
  have 3: "bs = [Num 100, Num 100, Num 101, Num 101, Num 102] \<longrightarrow>
      liveness t (snd (testBlockNumber env t))"
    using rising by (simp only: live) blast
  have 4: "bs = [Num 100, Num 100, Num 100, Num 100, Num 100] \<longrightarrow>
      \<not> liveness t (snd (testBlockNumber env t))"
    using flat by (simp only: live) blast
  show ?thesis
    by (rule conjI [OF len conjI [OF 2 conjI [OF 3 4]]])
qed

theorem testBlockNumber_liveness_witness:
  "samples ticking fresh = map Some [Num 100, Num 100, Num 101, Num 101, Num 102] \<and>
   liveness fresh (snd (testBlockNumber ticking fresh))"
proof -
  have s: "samples ticking fresh = map Some [Num 100, Num 100, Num 101, Num 101, Num 102]"
    by code_simp
  have n: "NaN \<notin> set [Num 100, Num 100, Num 101, Num 101, Num 102]"
    by simp
  have "liveness fresh (snd (testBlockNumber ticking fresh))"
    by (rule testBlockNumber_liveness
        [OF s n, THEN conjunct2, THEN conjunct2, THEN conjunct1, THEN mp, OF refl])
  with s show ?thesis
    by (rule conjI)
qed

text \<open>The claim C4 as written fails: the second sample of this run is \<open>NaN\<close>, the
  third is greater than the first, and the probe, which compares neighbours, reports
  no activity.\<close>

theorem testBlockNumber_liveness_counterexample:
  "samples tagging fresh = map Some [Num 100, NaN, Num 101, Num 101, Num 101] \<and>
   js_gt ([Num 100, NaN, Num 101, Num 101, Num 101] ! 2)
         ([Num 100, NaN, Num 101, Num 101, Num 101] ! 0) \<and>
   \<not> liveness fresh (snd (testBlockNumber tagging fresh))"
proof -
  have s: "samples tagging fresh = map Some [Num 100, NaN, Num 101, Num 101, Num 101]"
    by code_simp
  have "\<not> isIncrementing [Num 100, NaN, Num 101, Num 101, Num 101]"
    by code_simp
  with testBlockNumber_samples [OF s] s show ?thesis
    by simp
qed

end
